theory Spec2Isabelle
  imports Complex_Main "HOL-Library.AList" "HOL-Library.Sublist"
begin

section \<open>Brain context hook: truncation of the context block\<close>

text \<open>
  A JavaScript string is modelled as a \<^typ>\<open>string\<close>, one list element per UTF-16 code
  unit, so that \<^const>\<open>length\<close> is the \<open>.length\<close> of the source.

  \<open>String.prototype.slice(0, end)\<close> for an integer \<open>end\<close>: a negative \<open>end\<close> counts
  from the end of the string, and the result is clamped to the string.
\<close>

definition slice0 :: "string \<Rightarrow> int \<Rightarrow> string" where
  "slice0 s e =
     (let len = int (length s);
          to = (if e < 0 then max (len + e) 0 else min e len)
      in take (nat to) s)"

text \<open>The marker appended by the hook: a line feed followed by \<open>[...truncated]\<close>.\<close>

definition truncated_suffix :: string where
  "truncated_suffix = CHR 0x0A # ''[...truncated]''"

text \<open>
  \<^verbatim>\<open>
  function truncateContextBlock(block: string, maxChars: number): string {
    if (block.length <= maxChars) {
      return block;
    }
    return block.slice(0, maxChars) + "\n[...truncated]";
  }
  \<close>
\<close>

definition truncateContextBlock :: "string \<Rightarrow> int \<Rightarrow> string" where
  "truncateContextBlock block maxChars =
     (if int (length block) \<le> maxChars then block
      else slice0 block maxChars @ truncated_suffix)"

section \<open>Brain context cache\<close>

text \<open>
  \<^verbatim>\<open>
  export type BrainContextPayload = {
    contextBlock: string;
    memoriesUsed: number;
    retrievalMs: number;
    identity?: string;
    entities?: Array<{ name: string; type: string; summary?: string }>;
  };
  type CacheEntry = { payload: BrainContextPayload; expiresAt: number };
  const DEFAULT_TTL_MS = 30_000;
  const cache = new Map<string, CacheEntry>();
  \<close>
  The module-level \<open>Map\<close> is the state; every function takes it and returns it updated.
  \<open>Date.now()\<close> is the clock reading in milliseconds at the moment of the call and is
  passed in as the first argument.
\<close>

record Entity =
  entity_name :: string
  entity_type :: string
  entity_summary :: "string option"

record BrainContextPayload =
  contextBlock :: string
  memoriesUsed :: int
  retrievalMs :: int
  identity :: "string option"
  entities :: "Entity list option"

record CacheEntry =
  payload :: BrainContextPayload
  expiresAt :: int

type_synonym cache = "string \<rightharpoonup> CacheEntry"

definition DEFAULT_TTL_MS :: int where
  "DEFAULT_TTL_MS = 30000"

definition setBrainContext :: "int \<Rightarrow> string \<Rightarrow> BrainContextPayload \<Rightarrow> cache \<Rightarrow> cache" where
  "setBrainContext now sessionKey context c =
     c(sessionKey \<mapsto> \<lparr>payload = context, expiresAt = now + DEFAULT_TTL_MS\<rparr>)"

text \<open>The result is \<open>None\<close> for \<open>undefined\<close>, paired with the cache after the call.\<close>

definition getBrainContext :: "int \<Rightarrow> string \<Rightarrow> cache \<Rightarrow> BrainContextPayload option \<times> cache" where
  "getBrainContext now sessionKey c =
     (case c sessionKey of
        None \<Rightarrow> (None, c)
      | Some entry \<Rightarrow>
          if now > expiresAt entry then (None, c(sessionKey := None))
          else (Some (payload entry), c))"

definition clearBrainContext :: "string \<Rightarrow> cache \<Rightarrow> cache" where
  "clearBrainContext sessionKey c = c(sessionKey := None)"

definition clearAllBrainContext :: "cache \<Rightarrow> cache" where
  "clearAllBrainContext c = Map.empty"

section \<open>JSON values and the JavaScript operations the gateway handlers use\<close>

text \<open>
  What \<open>JSON.parse\<close> returns. An object is the list of its own properties in the order
  JavaScript enumerates them; a property is read with \<^const>\<open>map_of\<close> and written with
  \<^const>\<open>AList.update\<close> (replace in place, or append). A number is an integer here: the
  registry's only number is its \<open>version\<close>, and the handlers look at a number only to
  test it against zero and to print it.
\<close>

datatype json =
    JNull
  | JBool bool
  | JNum int
  | JStr string
  | JArr "json list"
  | JObj "(string \<times> json) list"

text \<open>\<open>String(n)\<close> for an integer \<open>n\<close> (plain decimal digits, as below \<open>10^21\<close>).\<close>

definition digit_char :: "nat \<Rightarrow> char" where
  "digit_char n = char_of (48 + n)"

fun nat_digits :: "nat \<Rightarrow> string" where
  "nat_digits n =
     (if n < 10 then [digit_char n] else nat_digits (n div 10) @ [digit_char (n mod 10)])"

declare nat_digits.simps [simp del]

definition Number_toString :: "int \<Rightarrow> string" where
  "Number_toString i =
     (if i < 0 then CHR ''-'' # nat_digits (nat (- i)) else nat_digits (nat i))"

text \<open>
  \<open>JSON.stringify(value, null, 2)\<close>, following ECMAScript's \<open>QuoteJSONString\<close>,
  \<open>SerializeJSONObject\<close> and \<open>SerializeJSONArray\<close> with the gap of two spaces.
  \<open>CHR 0x22\<close> is the double quote, \<open>CHR 0x5C\<close> the backslash, \<open>CHR 0x0A\<close> the line feed.
\<close>

definition hex_digit :: "nat \<Rightarrow> char" where
  "hex_digit n = (if n < 10 then char_of (48 + n) else char_of (87 + n))"

definition quote_char :: "char \<Rightarrow> string" where
  "quote_char c =
     (if c = CHR 0x22 then [CHR 0x5C, CHR 0x22]
      else if c = CHR 0x5C then [CHR 0x5C, CHR 0x5C]
      else if c = CHR 0x08 then [CHR 0x5C, CHR ''b'']
      else if c = CHR 0x0C then [CHR 0x5C, CHR ''f'']
      else if c = CHR 0x0A then [CHR 0x5C, CHR ''n'']
      else if c = CHR 0x0D then [CHR 0x5C, CHR ''r'']
      else if c = CHR 0x09 then [CHR 0x5C, CHR ''t'']
      else if (of_char c :: nat) < 32
        then [CHR 0x5C, CHR ''u'', CHR ''0'', CHR ''0'',
              hex_digit (of_char c div 16), hex_digit (of_char c mod 16)]
      else [c])"

definition JSON_quote :: "string \<Rightarrow> string" where
  "JSON_quote s = CHR 0x22 # concat (map quote_char s) @ [CHR 0x22]"

fun join :: "string \<Rightarrow> string list \<Rightarrow> string" where
  "join sep [] = []"
| "join sep [x] = x"
| "join sep (x # y # ys) = x @ sep @ join sep (y # ys)"

definition wrap :: "char \<Rightarrow> char \<Rightarrow> string \<Rightarrow> string list \<Rightarrow> string" where
  "wrap opn cls indent items =
     (if items = [] then [opn, cls]
      else [opn, CHR 0x0A] @ indent @ ''  ''
           @ join ([CHR '','', CHR 0x0A] @ indent @ ''  '') items
           @ [CHR 0x0A] @ indent @ [cls])"

primrec SerializeJSONProperty :: "json \<Rightarrow> string \<Rightarrow> string" where
  "SerializeJSONProperty JNull = (\<lambda>indent. ''null'')"
| "SerializeJSONProperty (JBool b) = (\<lambda>indent. if b then ''true'' else ''false'')"
| "SerializeJSONProperty (JNum n) = (\<lambda>indent. Number_toString n)"
| "SerializeJSONProperty (JStr s) = (\<lambda>indent. JSON_quote s)"
| "SerializeJSONProperty (JArr xs) =
     (\<lambda>indent. wrap CHR ''['' CHR '']'' indent
        (map (\<lambda>f. f (indent @ ''  '')) (map SerializeJSONProperty xs)))"
| "SerializeJSONProperty (JObj kvs) =
     (\<lambda>indent. wrap CHR ''{'' CHR ''}'' indent
        (map (\<lambda>(k, f). JSON_quote k @ '': '' @ f (indent @ ''  ''))
           (map (map_prod id SerializeJSONProperty) kvs)))"

definition JSON_stringify :: "json \<Rightarrow> string" where
  "JSON_stringify v = SerializeJSONProperty v []"

text \<open>
  A read of one of the fixed names the handlers use (\<open>params?.project\<close>,
  \<open>params?.enabled\<close>, \<open>params?.days\<close>, \<open>params?.roots\<close>, \<open>registry.projects\<close>). None of
  them is an array index, \<open>length\<close> or a member of a built-in prototype, so the read
  finds an own property of an object or yields \<open>undefined\<close> (\<open>None\<close>).
\<close>

definition own :: "json \<Rightarrow> string \<Rightarrow> json option" where
  "own v k = (case v of JObj kvs \<Rightarrow> map_of kvs k | _ \<Rightarrow> None)"

text \<open>
  A read \<open>v[k]\<close> with a name \<open>k\<close> chosen by the caller, as in
  \<open>registry.projects?.[projectName]\<close>. It finds an own property, or a member that \<open>v\<close>
  inherits from its prototype chain (a function, or the prototype object itself for
  \<open>__proto__\<close>), or nothing. Every object made by \<open>JSON.parse\<close> inherits the members of
  \<open>Object.prototype\<close>, listed here (ECMAScript, with Annex B). What arrays, strings,
  numbers and booleans inherit besides depends on the engine's version and is the
  parameter \<open>proto\<close>. The built-in prototypes are taken as Node.js ships them; they are
  not part of the modelled state.
\<close>

datatype jsval = Undefined | Own json | Inherited

definition Object_prototype_keys :: "string list" where
  "Object_prototype_keys =
     [''constructor'', ''hasOwnProperty'', ''isPrototypeOf'', ''propertyIsEnumerable'',
      ''toLocaleString'', ''toString'', ''valueOf'', ''__proto__'',
      ''__defineGetter__'', ''__defineSetter__'', ''__lookupGetter__'', ''__lookupSetter__'']"

definition array_index :: "string \<Rightarrow> nat \<Rightarrow> nat option" where
  "array_index k len = find (\<lambda>i. nat_digits i = k) [0..<len]"

definition inherited :: "(json \<Rightarrow> string \<Rightarrow> bool) \<Rightarrow> json \<Rightarrow> string \<Rightarrow> jsval" where
  "inherited proto v k =
     (if k \<in> set Object_prototype_keys \<or> proto v k then Inherited else Undefined)"

fun get_prop :: "(json \<Rightarrow> string \<Rightarrow> bool) \<Rightarrow> json \<Rightarrow> string \<Rightarrow> jsval" where
  "get_prop proto (JObj kvs) k =
     (case map_of kvs k of
        Some v \<Rightarrow> Own v
      | None \<Rightarrow> if k \<in> set Object_prototype_keys then Inherited else Undefined)"
| "get_prop proto (JArr xs) k =
     (case array_index k (length xs) of
        Some i \<Rightarrow> Own (xs ! i)
      | None \<Rightarrow> if k = ''length'' then Own (JNum (int (length xs)))
                else inherited proto (JArr xs) k)"
| "get_prop proto (JStr s) k =
     (case array_index k (length s) of
        Some i \<Rightarrow> Own (JStr [s ! i])
      | None \<Rightarrow> if k = ''length'' then Own (JNum (int (length s)))
                else inherited proto (JStr s) k)"
| "get_prop proto JNull k = Undefined"
| "get_prop proto v k = inherited proto v k"

text \<open>JavaScript's truthiness, as \<open>!x\<close> tests it.\<close>

fun truthy_json :: "json \<Rightarrow> bool" where
  "truthy_json JNull = False"
| "truthy_json (JBool b) = b"
| "truthy_json (JNum n) = (n \<noteq> 0)"
| "truthy_json (JStr s) = (s \<noteq> [])"
| "truthy_json (JArr xs) = True"
| "truthy_json (JObj kvs) = True"

fun truthy :: "jsval \<Rightarrow> bool" where
  "truthy Undefined = False"
| "truthy (Own v) = truthy_json v"
| "truthy Inherited = True"

section \<open>The gateway's project handlers (\<open>src/gateway/server-methods/projects.ts\<close>)\<close>

subsection \<open>What the handlers stand on\<close>

text \<open>
  Modelled from the spec: \<open>ErrorCodes\<close> and \<open>errorShape\<close> are imported from
  \<open>../protocol/index.js\<close>, which is not among the sources. The spec's error taxonomy has
  three codes; the handlers build an error from a code and a message.
\<close>

datatype ErrorCode = INVALID_REQUEST | NOT_FOUND | UNAVAILABLE

datatype ErrorShape = errorShape ErrorCode string

text \<open>
  \<open>respond(true, payload)\<close> and \<open>respond(false, undefined, error)\<close>. Every path of every
  handler calls \<open>respond\<close> once, so a handler is a function to its response.
\<close>

datatype response = respond_ok json | respond_error ErrorShape

fun response_code :: "response \<Rightarrow> ErrorCode option" where
  "response_code (respond_ok result) = None"
| "response_code (respond_error (errorShape c m)) = Some c"

text \<open>
  The registry file at \<open>REGISTRY_PATH\<close>: missing, present but failing to be read (a
  directory, no permission), or holding text.
\<close>

datatype file_state = Absent | Unreadable | Content string

text \<open>
  One call of \<open>execFile\<close>: the command, its argument array as it is handed over, and the
  options \<open>timeout\<close>, \<open>maxBuffer\<close> and what is added to the environment.
\<close>

record exec_call =
  command :: string
  argv :: "json list"
  opt_timeout :: nat
  opt_maxBuffer :: nat
  opt_env :: "(string \<times> string) list"

text \<open>
  The Node.js runtime and the machine, as far as the handlers see them. \<open>HOME\<close> is
  \<open>process.env.HOME ?? "/tmp"\<close>, \<open>scriptsDir\<close> the result of \<open>resolveScriptsDir()\<close>,
  \<open>path_join\<close> and \<open>path_resolve\<close> are \<open>path.join\<close> and \<open>path.resolve\<close>, and
  \<open>script_exists\<close> is \<open>fs.existsSync\<close> on a script's path. \<open>JSON_parse\<close> yields \<open>Inl\<close> of
  the error's text where \<open>JSON.parse\<close> throws. \<open>proto v k\<close> says whether the array or
  primitive \<open>v\<close> inherits a member named \<open>k\<close> from its built-in prototype. \<open>execFile\<close> runs
  the child process on the registry file as it is and yields what the promise settles to
  (\<open>Inl\<close> of the error's text when it rejects: spawn failure, non-zero exit, the timeout
  or \<open>maxBuffer\<close> exceeded; \<open>Inr\<close> of the standard output otherwise) and the registry
  file as the child leaves it.
\<close>

record platform =
  HOME :: string
  scriptsDir :: string
  path_join :: "string list \<Rightarrow> string"
  path_resolve :: "string \<Rightarrow> string"
  JSON_parse :: "string \<Rightarrow> string + json"
  proto :: "json \<Rightarrow> string \<Rightarrow> bool"
  script_exists :: "string \<Rightarrow> bool"
  execFile :: "exec_call \<Rightarrow> file_state \<Rightarrow> (string + string) \<times> file_state"

text \<open>The state the handlers read and change: the registry file and the calls made.\<close>

record world =
  registry_file :: file_state
  registry_writable :: bool
  calls :: "exec_call list"

definition COCKPIT_DIR :: "platform \<Rightarrow> string" where
  "COCKPIT_DIR P = path_join P [HOME P, ''.openclaw'', ''cockpit'']"

definition REGISTRY_PATH :: "platform \<Rightarrow> string" where
  "REGISTRY_PATH P = path_join P [COCKPIT_DIR P, ''projects.json'']"

text \<open>\<open>fs.existsSync\<close>, \<open>fs.readFileSync\<close> and \<open>fs.writeFileSync\<close> on \<open>REGISTRY_PATH\<close>.\<close>

definition existsSync :: "world \<Rightarrow> bool" where
  "existsSync w = (registry_file w \<noteq> Absent)"

definition readFileSync :: "world \<Rightarrow> string + string" where
  "readFileSync w =
     (case registry_file w of
        Content raw \<Rightarrow> Inr raw
      | Unreadable \<Rightarrow> Inl ''Error: EACCES: permission denied, open''
      | Absent \<Rightarrow> Inl ''Error: ENOENT: no such file or directory, open'')"

definition writeFileSync :: "world \<Rightarrow> string \<Rightarrow> string + world" where
  "writeFileSync w data =
     (if registry_writable w then Inr (w\<lparr>registry_file := Content data\<rparr>)
      else Inl ''Error: EACCES: permission denied, open'')"

text \<open>
  \<^verbatim>\<open>
  const raw = fs.readFileSync(REGISTRY_PATH, "utf-8");
  const registry = JSON.parse(raw);
  \<close>
\<close>

definition read_registry :: "platform \<Rightarrow> world \<Rightarrow> string + json" where
  "read_registry P w =
     (case readFileSync w of Inl err \<Rightarrow> Inl err | Inr raw \<Rightarrow> JSON_parse P raw)"

subsection \<open>\<open>runPythonScript\<close>\<close>

text \<open>
  \<^verbatim>\<open>
  const { stdout } = await execFileAsync("python3", [scriptPath, ...args], {
    timeout: 30_000,
    maxBuffer: 10 * 1024 * 1024,
    env: { ...process.env, PYTHONDONTWRITEBYTECODE: "1" },
  });
  return JSON.parse(stdout);
  \<close>
\<close>

definition python_call :: "string \<Rightarrow> json list \<Rightarrow> exec_call" where
  "python_call scriptPath args =
     \<lparr>command = ''python3'', argv = JStr scriptPath # args,
      opt_timeout = 30000, opt_maxBuffer = 10 * 1024 * 1024,
      opt_env = [(''PYTHONDONTWRITEBYTECODE'', ''1'')]\<rparr>"

definition runPythonScript ::
  "platform \<Rightarrow> world \<Rightarrow> string \<Rightarrow> json list \<Rightarrow> (string + json) \<times> world" where
  "runPythonScript P w scriptName args =
     (let scriptPath = path_join P [scriptsDir P, scriptName] in
      if \<not> script_exists P scriptPath
      then (Inl (''Error: Script not found: '' @ scriptPath), w)
      else
        let call = python_call scriptPath args;
            ran = execFile P call (registry_file w);
            w' = w\<lparr>registry_file := snd ran, calls := calls w @ [call]\<rparr>
        in case fst ran of
             Inl err \<Rightarrow> (Inl err, w')
           | Inr stdout \<Rightarrow> (JSON_parse P stdout, w'))"

subsection \<open>\<open>projects.list\<close>\<close>

definition projects_list :: "platform \<Rightarrow> world \<Rightarrow> response \<times> world" where
  "projects_list P w =
     (if \<not> existsSync w
      then (respond_ok (JObj [(''projects'', JObj []),
               (''message'', JStr ''No registry found. Run projects.scan first.'')]), w)
      else case read_registry P w of
             Inl err \<Rightarrow> (respond_error (errorShape UNAVAILABLE err), w)
           | Inr registry \<Rightarrow> (respond_ok registry, w))"

subsection \<open>\<open>projects.usage\<close> and \<open>projects.git\<close>\<close>

text \<open>
  \<^verbatim>\<open>
  const args = ["--format", "json"];
  if (typeof params?.days === "number") { args.push("--days", String(params.days)); }
  if (typeof params?.project === "string") { args.push("--project", params.project); }
  \<close>
  The two handlers build the same arguments and differ in the script they run.
\<close>

definition days_args :: "json \<Rightarrow> json list" where
  "days_args params =
     (case own params ''days'' of
        Some (JNum n) \<Rightarrow> [JStr ''--days'', JStr (Number_toString n)]
      | _ \<Rightarrow> [])"

definition project_args :: "json \<Rightarrow> json list" where
  "project_args params =
     (case own params ''project'' of
        Some (JStr s) \<Rightarrow> [JStr ''--project'', JStr s]
      | _ \<Rightarrow> [])"

definition report_args :: "json \<Rightarrow> json list" where
  "report_args params =
     [JStr ''--format'', JStr ''json''] @ days_args params @ project_args params"

definition respond_result :: "(string + json) \<times> world \<Rightarrow> response \<times> world" where
  "respond_result r =
     (case fst r of
        Inl err \<Rightarrow> (respond_error (errorShape UNAVAILABLE err), snd r)
      | Inr result \<Rightarrow> (respond_ok result, snd r))"

definition projects_usage :: "platform \<Rightarrow> world \<Rightarrow> json \<Rightarrow> response \<times> world" where
  "projects_usage P w params =
     respond_result (runPythonScript P w ''project_usage.py'' (report_args params))"

definition projects_git :: "platform \<Rightarrow> world \<Rightarrow> json \<Rightarrow> response \<times> world" where
  "projects_git P w params =
     respond_result (runPythonScript P w ''git_activity.py'' (report_args params))"

subsection \<open>\<open>projects.scan\<close>\<close>

text \<open>
  \<^verbatim>\<open>
  const args = ["--output", REGISTRY_PATH];
  const roots = Array.isArray(params?.roots)
    ? (params.roots as string[])
    : [path.join(process.env.HOME ?? "/tmp", "dev")];
  for (const root of roots) { args.push("--root", root); }
  const result = await runPythonScript("project_scan.py", args);
  if (fs.existsSync(REGISTRY_PATH)) {
    const raw = fs.readFileSync(REGISTRY_PATH, "utf-8");
    respond(true, JSON.parse(raw));
  } else { respond(true, result); }
  \<close>
  The cast \<open>as string[]\<close> checks nothing: the elements go to \<open>execFile\<close> as they are.
\<close>

definition scan_roots :: "platform \<Rightarrow> json \<Rightarrow> json list" where
  "scan_roots P params =
     (case own params ''roots'' of
        Some (JArr rs) \<Rightarrow> rs
      | _ \<Rightarrow> [JStr (path_join P [HOME P, ''dev''])])"

definition scan_args :: "platform \<Rightarrow> json list \<Rightarrow> json list" where
  "scan_args P roots =
     [JStr ''--output'', JStr (REGISTRY_PATH P)]
     @ concat (map (\<lambda>root. [JStr ''--root'', root]) roots)"

definition rescan :: "platform \<Rightarrow> world \<Rightarrow> json list \<Rightarrow> response \<times> world" where
  "rescan P w roots =
     (let r = runPythonScript P w ''project_scan.py'' (scan_args P roots) in
      case fst r of
        Inl err \<Rightarrow> (respond_error (errorShape UNAVAILABLE err), snd r)
      | Inr result \<Rightarrow>
          if existsSync (snd r)
          then (case read_registry P (snd r) of
                  Inl err \<Rightarrow> (respond_error (errorShape UNAVAILABLE err), snd r)
                | Inr registry \<Rightarrow> (respond_ok registry, snd r))
          else (respond_ok result, snd r))"

definition projects_scan :: "platform \<Rightarrow> world \<Rightarrow> json \<Rightarrow> response \<times> world" where
  "projects_scan P w params = rescan P w (scan_roots P params)"

subsection \<open>\<open>projects.toggle\<close>\<close>

text \<open>
  \<open>registry.projects?.[projectName]\<close>: reading \<open>projects\<close> of \<open>null\<close> throws a
  \<open>TypeError\<close>; a missing or \<open>null\<close> \<open>projects\<close> ends the optional chain with
  \<open>undefined\<close>; otherwise the name is looked up, own properties first and the prototype
  chain after them.
\<close>

definition lookup_project :: "platform \<Rightarrow> json \<Rightarrow> string \<Rightarrow> string + jsval" where
  "lookup_project P registry projectName =
     (case registry of
        JNull \<Rightarrow> Inl ''TypeError: Cannot read properties of null (reading projects)''
      | _ \<Rightarrow>
          (case own registry ''projects'' of
             None \<Rightarrow> Inr Undefined
           | Some projects \<Rightarrow> Inr (get_prop (proto P) projects projectName)))"

text \<open>
  \<open>registry.projects[projectName].enabled = enabled\<close>, on a target the test before it
  found truthy. The module is an ES module, hence strict: the assignment throws a
  \<open>TypeError\<close> on a primitive target. On an own entry that is an object it sets the
  entry's \<open>enabled\<close> in place. On an array it adds a property that \<open>JSON.stringify\<close>
  leaves out, and on an inherited member it lands on a built-in object: in both cases
  the registry, as it is written back, is what was read.
\<close>

definition put_project :: "json \<Rightarrow> string \<Rightarrow> json \<Rightarrow> json" where
  "put_project registry projectName entry =
     (case registry of
        JObj members \<Rightarrow>
          JObj (AList.map_entry ''projects''
            (\<lambda>projects.
               case projects of
                 JObj ps \<Rightarrow> JObj (AList.update projectName entry ps)
               | JArr xs \<Rightarrow>
                   (case array_index projectName (length xs) of
                      Some i \<Rightarrow> JArr (xs[i := entry])
                    | None \<Rightarrow> JArr xs)
               | _ \<Rightarrow> projects)
            members)
      | _ \<Rightarrow> registry)"

definition assign_enabled :: "json \<Rightarrow> string \<Rightarrow> jsval \<Rightarrow> bool \<Rightarrow> string + json" where
  "assign_enabled registry projectName target enabled =
     (case target of
        Own (JObj entry) \<Rightarrow>
          Inr (put_project registry projectName
                 (JObj (AList.update ''enabled'' (JBool enabled) entry)))
      | Own (JArr xs) \<Rightarrow> Inr registry
      | Inherited \<Rightarrow> Inr registry
      | _ \<Rightarrow> Inl ''TypeError: Cannot create property enabled on a primitive value'')"

text \<open>
  The body of the \<open>try\<close> block:
  \<^verbatim>\<open>
  if (!fs.existsSync(REGISTRY_PATH)) {
    respond(false, undefined, errorShape(ErrorCodes.INVALID_REQUEST, "No registry found"));
    return;
  }
  const raw = fs.readFileSync(REGISTRY_PATH, "utf-8");
  const registry = JSON.parse(raw);
  if (!registry.projects?.[projectName]) {
    respond(false, undefined,
      errorShape(ErrorCodes.INVALID_REQUEST, `Project not found: ${projectName}`));
    return;
  }
  registry.projects[projectName].enabled = enabled;
  fs.writeFileSync(REGISTRY_PATH, JSON.stringify(registry, null, 2) + "\n");
  respond(true, { project: projectName, enabled });
  \<close>
  and its \<open>catch\<close>, which responds \<open>UNAVAILABLE\<close> with the error's text.
\<close>

definition toggle_registry :: "platform \<Rightarrow> world \<Rightarrow> string \<Rightarrow> bool \<Rightarrow> response \<times> world" where
  "toggle_registry P w projectName enabled =
     (if \<not> existsSync w
      then (respond_error (errorShape INVALID_REQUEST ''No registry found''), w)
      else
        case read_registry P w of
          Inl err \<Rightarrow> (respond_error (errorShape UNAVAILABLE err), w)
        | Inr registry \<Rightarrow>
            (case lookup_project P registry projectName of
               Inl err \<Rightarrow> (respond_error (errorShape UNAVAILABLE err), w)
             | Inr target \<Rightarrow>
                 if \<not> truthy target
                 then (respond_error
                         (errorShape INVALID_REQUEST (''Project not found: '' @ projectName)), w)
                 else
                   (case assign_enabled registry projectName target enabled of
                      Inl err \<Rightarrow> (respond_error (errorShape UNAVAILABLE err), w)
                    | Inr registry' \<Rightarrow>
                        (case writeFileSync w (JSON_stringify registry' @ [CHR 0x0A]) of
                           Inl err \<Rightarrow> (respond_error (errorShape UNAVAILABLE err), w)
                         | Inr w' \<Rightarrow>
                             (respond_ok (JObj [(''project'', JStr projectName),
                                                (''enabled'', JBool enabled)]), w')))))"

text \<open>
  \<^verbatim>\<open>
  const projectName = typeof params?.project === "string" ? params.project : null;
  const enabled = typeof params?.enabled === "boolean" ? params.enabled : null;
  if (!projectName || enabled === null) {
    respond(false, undefined,
      errorShape(ErrorCodes.INVALID_REQUEST, "project (string) and enabled (boolean) required"));
    return;
  }
  \<close>
  The empty string is falsy, so an empty project name is refused here as well.
\<close>

definition toggle_project_param :: "json \<Rightarrow> string option" where
  "toggle_project_param params =
     (case own params ''project'' of
        Some (JStr s) \<Rightarrow> if s = [] then None else Some s
      | _ \<Rightarrow> None)"

definition toggle_enabled_param :: "json \<Rightarrow> bool option" where
  "toggle_enabled_param params =
     (case own params ''enabled'' of Some (JBool b) \<Rightarrow> Some b | _ \<Rightarrow> None)"

definition projects_toggle :: "platform \<Rightarrow> world \<Rightarrow> json \<Rightarrow> response \<times> world" where
  "projects_toggle P w params =
     (case toggle_project_param params of
        None \<Rightarrow>
          (respond_error (errorShape INVALID_REQUEST
             ''project (string) and enabled (boolean) required''), w)
      | Some projectName \<Rightarrow>
          (case toggle_enabled_param params of
             None \<Rightarrow>
               (respond_error (errorShape INVALID_REQUEST
                  ''project (string) and enabled (boolean) required''), w)
           | Some enabled \<Rightarrow> toggle_registry P w projectName enabled))"

subsection \<open>The revision of the handlers that validates its input\<close>

text \<open>
  The sources hold a second revision of \<open>projects.ts\<close> in which \<open>projects.usage\<close>,
  \<open>projects.git\<close> and \<open>projects.scan\<close> pass what the caller sent through two checks:
  \<^verbatim>\<open>
  // Only allow scanning within the user's home directory to prevent path traversal
  function sanitizePath(p: string): string | null {
    const resolved = path.resolve(p);
    if (!resolved.startsWith(HOME + "/") && resolved !== HOME) { return null; }
    return resolved;
  }
  // Reject project names with path separators or traversal sequences
  function sanitizeProjectName(name: string): string | null {
    if (/[/\\]|\.\./.test(name)) { return null; }
    return name;
  }
  \<close>
\<close>

definition sanitizePath :: "platform \<Rightarrow> string \<Rightarrow> string option" where
  "sanitizePath P p =
     (let resolved = path_resolve P p in
      if \<not> prefix (HOME P @ ''/'') resolved \<and> resolved \<noteq> HOME P then None
      else Some resolved)"

fun has_dotdot :: "string \<Rightarrow> bool" where
  "has_dotdot (a # b # cs) = ((a = CHR ''.'' \<and> b = CHR ''.'') \<or> has_dotdot (b # cs))"
| "has_dotdot cs = False"

definition sanitizeProjectName :: "string \<Rightarrow> string option" where
  "sanitizeProjectName s =
     (if CHR ''/'' \<in> set s \<or> CHR 0x5C \<in> set s \<or> has_dotdot s then None else Some s)"

text \<open>
  \<^verbatim>\<open>
  if (typeof params?.project === "string") {
    const name = sanitizeProjectName(params.project);
    if (!name) {
      respond(false, undefined, errorShape(ErrorCodes.INVALID_REQUEST, "Invalid project name"));
      return;
    }
    args.push("--project", name);
  }
  \<close>
\<close>

definition validated_report ::
  "platform \<Rightarrow> world \<Rightarrow> string \<Rightarrow> json \<Rightarrow> response \<times> world" where
  "validated_report P w scriptName params =
     (let args = [JStr ''--format'', JStr ''json''] @ days_args params in
      case own params ''project'' of
        Some (JStr s) \<Rightarrow>
          (case sanitizeProjectName s of
             None \<Rightarrow> (respond_error (errorShape INVALID_REQUEST ''Invalid project name''), w)
           | Some checked \<Rightarrow>
               if checked = []
               then (respond_error (errorShape INVALID_REQUEST ''Invalid project name''), w)
               else respond_result
                      (runPythonScript P w scriptName (args @ [JStr ''--project'', JStr checked])))
      | _ \<Rightarrow> respond_result (runPythonScript P w scriptName args))"

definition projects_usage_validated :: "platform \<Rightarrow> world \<Rightarrow> json \<Rightarrow> response \<times> world" where
  "projects_usage_validated P w params = validated_report P w ''project_usage.py'' params"

definition projects_git_validated :: "platform \<Rightarrow> world \<Rightarrow> json \<Rightarrow> response \<times> world" where
  "projects_git_validated P w params = validated_report P w ''git_activity.py'' params"

text \<open>
  \<^verbatim>\<open>
  const roots = rawRoots
    .filter((r): r is string => typeof r === "string")
    .map(sanitizePath)
    .filter((r): r is string => r !== null);
  if (roots.length === 0) {
    respond(false, undefined,
      errorShape(ErrorCodes.INVALID_REQUEST, "No valid roots after path validation"));
    return;
  }
  \<close>
\<close>

definition strings_of :: "json list \<Rightarrow> string list" where
  "strings_of rs = concat (map (\<lambda>r. case r of JStr s \<Rightarrow> [s] | _ \<Rightarrow> []) rs)"

definition validated_roots :: "platform \<Rightarrow> json \<Rightarrow> string list" where
  "validated_roots P params =
     List.map_filter (sanitizePath P) (strings_of (scan_roots P params))"

definition projects_scan_validated :: "platform \<Rightarrow> world \<Rightarrow> json \<Rightarrow> response \<times> world" where
  "projects_scan_validated P w params =
     (let roots = validated_roots P params in
      if roots = []
      then (respond_error
              (errorShape INVALID_REQUEST ''No valid roots after path validation''), w)
      else rescan P w (map JStr roots))"

subsection \<open>A sample installation\<close>

text \<open>
  A concrete platform and registry on which the handlers are evaluated below. Its
  \<open>JSON.parse\<close> reads back exactly the texts that \<open>JSON.stringify(v, null, 2) + "\n"\<close>
  writes for the listed values and rejects every other text; its paths are joined with a
  slash and taken as resolved; the built-in prototypes of arrays and primitives are left
  empty; the child process is given by \<open>run\<close>.
\<close>

definition parse_of :: "json list \<Rightarrow> string \<Rightarrow> string + json" where
  "parse_of vs s =
     (case find (\<lambda>v. JSON_stringify v @ [CHR 0x0A] = s) vs of
        Some v \<Rightarrow> Inr v
      | None \<Rightarrow> Inl ''SyntaxError: Unexpected token in JSON'')"

definition sample_registry :: json where
  "sample_registry =
     JObj [(''version'', JNum 1),
           (''projects'', JObj [(''openclaw'',
              JObj [(''path'', JStr ''/home/u/dev/openclaw''), (''enabled'', JBool True)])])]"

definition sample_platform ::
  "(exec_call \<Rightarrow> file_state \<Rightarrow> (string + string) \<times> file_state) \<Rightarrow> platform" where
  "sample_platform run =
     \<lparr>HOME = ''/home/u'', scriptsDir = ''/opt/openclaw/skills/dev-cockpit/scripts'',
      path_join = join ''/'', path_resolve = (\<lambda>p. p),
      JSON_parse = parse_of [sample_registry], proto = (\<lambda>v k. False),
      script_exists = (\<lambda>p. True), execFile = run\<rparr>"

definition timing_out :: "exec_call \<Rightarrow> file_state \<Rightarrow> (string + string) \<times> file_state" where
  "timing_out c f = (Inl ''Error: Command failed: python3 (killed by SIGTERM)'', f)"

definition sample_world :: world where
  "sample_world =
     \<lparr>registry_file = Content (JSON_stringify sample_registry @ [CHR 0x0A]),
      registry_writable = True, calls = []\<rparr>"

section \<open>The dev cockpit's data\<close>

text \<open>
  The types the web UI's projects controller declares for what the gateway returns.
  \<^verbatim>\<open>
  export type ProjectEntry = {
    path: string; enabled: boolean; tags: string[]; language: string;
    discovered: string; description: string; lastCommit: string | null;
  };
  export type ProjectRegistry = {
    version: number; scannedAt: string; scanRoots: string[];
    projects: Record<string, ProjectEntry>;
  };
  \<close>
  A \<open>Record\<close> is the list of its entries in iteration order.
\<close>

record ProjectEntry =
  path :: string
  enabled :: bool
  tags :: "string list"
  language :: string
  discovered :: string
  description :: string
  lastCommit :: "string option"

record ProjectRegistry =
  version :: int
  scannedAt :: string
  scanRoots :: "string list"
  projects :: "(string \<times> ProjectEntry) list"

text \<open>
  \<^verbatim>\<open>
  export type ProjectUsageEntry = {
    sessions: number; totalTokens: number; inputTokens: number; outputTokens: number;
    estimatedCostUSD: number; activeTimeHours: number;
    models: Record<string, { tokens: number; costUSD: number; sessions: number }>;
  };
  export type ProjectUsageResult = {
    generatedAt: string; days: number | null; projectFilter: string | null;
    totalProjects: number;
    projects: Record<string, ProjectUsageEntry>;
    totals: { sessions: number; totalTokens: number; estimatedCostUSD: number };
  };
  \<close>
  Token and session counts are natural numbers; amounts of money and hours are exact
  rationals (the rounding of JavaScript's and Python's floating point is not modelled).
  Field names that occur in two of the types carry a prefix in all but one.
\<close>

record ModelUsage =
  tokens :: nat
  costUSD :: rat
  model_sessions :: nat

record ProjectUsageEntry =
  sessions :: nat
  totalTokens :: nat
  inputTokens :: nat
  outputTokens :: nat
  estimatedCostUSD :: rat
  activeTimeHours :: rat
  models :: "(string \<times> ModelUsage) list"

record UsageTotals =
  totals_sessions :: nat
  totals_totalTokens :: nat
  totals_estimatedCostUSD :: rat

record ProjectUsageResult =
  generatedAt :: string
  days :: "int option"
  projectFilter :: "string option"
  totalProjects :: nat
  usage_projects :: "(string \<times> ProjectUsageEntry) list"
  totals :: UsageTotals

section \<open>Session attribution\<close>

text \<open>
  Modelled from the spec: the attribution rule lives in the skill's script
  \<open>project_usage.py\<close>, which is not among the sources. The spec (4.1): a project matches
  if \<open>cwd\<close> equals \<open>project.path\<close> or \<open>cwd\<close> starts with \<open>project.path\<close> followed by a
  path separator. The separator is the slash of the systems the skill declares (darwin,
  linux).
\<close>

definition path_matches :: "string \<Rightarrow> string \<Rightarrow> bool" where
  "path_matches c p = (c = p \<or> prefix (p @ ''/'') c)"

text \<open>
  Modelled from the spec: the result \<open>projectName | "_unmatched"\<close> of the missing
  \<open>attribute\<close>, as a name or the sentinel.
\<close>

datatype attribution = Project string | Unmatched

text \<open>
  Modelled from the spec: among all matching projects of the missing \<open>attribute\<close>, the
  one with the longest \<open>path\<close> string; on a tie the one that comes first in the registry,
  so that repeated calls on the same input give the same result.
\<close>

fun longest_match :: "(string \<times> ProjectEntry) list \<Rightarrow> (string \<times> ProjectEntry) option" where
  "longest_match [] = None"
| "longest_match (x # xs) =
     (case longest_match xs of
        None \<Rightarrow> Some x
      | Some y \<Rightarrow> if length (path (snd x)) < length (path (snd y)) then Some y else Some x)"

text \<open>
  Modelled from the spec: \<open>attribute(cwd, registry)\<close> of the missing \<open>project_usage.py\<close>.
  Only enabled projects participate; no match, or an empty \<open>cwd\<close>, gives \<open>_unmatched\<close>.
\<close>

definition attribute :: "string \<Rightarrow> ProjectRegistry \<Rightarrow> attribution" where
  "attribute c reg =
     (if c = [] then Unmatched
      else case longest_match
                  (filter (\<lambda>(n, e). enabled e \<and> path_matches c (path e)) (projects reg)) of
             None \<Rightarrow> Unmatched
           | Some (n, e) \<Rightarrow> Project n)"

section \<open>Usage aggregation\<close>

text \<open>
  Modelled from the spec: the session records that the missing \<open>project_usage.py\<close> reads.
  The spec (3): a header with a working directory (which may be missing) and events with
  a timestamp (milliseconds), token counts in and out, a model identifier and a
  precomputed cost.
\<close>

record UsageEvent =
  ev_time :: int
  ev_input :: nat
  ev_output :: nat
  ev_model :: string
  ev_cost :: rat

record SessionRecord =
  session_cwd :: "string option"
  session_events :: "UsageEvent list"

text \<open>
  Modelled from the spec: the window test of the missing aggregator (4.2). \<open>None\<close> is
  all-time; otherwise an event counts when its timestamp lies in the trailing
  \<open>days * 24h\<close> before \<open>now\<close>, which is read once per call.
\<close>

definition in_window :: "int \<Rightarrow> int option \<Rightarrow> UsageEvent \<Rightarrow> bool" where
  "in_window now window ev =
     (case window of
        None \<Rightarrow> True
      | Some d \<Rightarrow> now - d * 86400000 \<le> ev_time ev \<and> ev_time ev \<le> now)"

text \<open>
  Modelled from the spec: the active time of one session in the missing aggregator
  (4.2): the gaps between consecutive sorted timestamps are summed, a gap larger than
  the 15-minute idle threshold contributing zero; a session with a single event
  contributes the fixed amount \<open>single\<close>, which the spec leaves open. In milliseconds.
\<close>

fun gaps :: "int list \<Rightarrow> int list" where
  "gaps (a # b # ts) = (b - a) # gaps (b # ts)"
| "gaps ts = []"

definition active_ms :: "int \<Rightarrow> int list \<Rightarrow> int" where
  "active_ms single ts =
     (if length ts = 1 then single
      else sum_list (map (\<lambda>g. if g > 15 * 60 * 1000 then 0 else g) (gaps (sort ts))))"

text \<open>
  Modelled from the spec: the per-model breakdown of the missing aggregator (4.2), keyed
  by the event's model id; \<open>sessions\<close> counts the sessions in which the model occurs.
\<close>

definition add_model :: "ModelUsage \<Rightarrow> ModelUsage \<Rightarrow> ModelUsage" where
  "add_model a b =
     \<lparr>tokens = tokens a + tokens b, costUSD = costUSD a + costUSD b,
      model_sessions = model_sessions a + model_sessions b\<rparr>"

definition session_models :: "UsageEvent list \<Rightarrow> (string \<times> ModelUsage) list" where
  "session_models evs =
     foldl (\<lambda>acc ev.
              AList.map_default (ev_model ev)
                \<lparr>tokens = ev_input ev + ev_output ev, costUSD = ev_cost ev, model_sessions = 1\<rparr>
                (\<lambda>m. m\<lparr>tokens := tokens m + ev_input ev + ev_output ev,
                        costUSD := costUSD m + ev_cost ev\<rparr>)
                acc)
       [] evs"

definition merge_models ::
  "(string \<times> ModelUsage) list \<Rightarrow> (string \<times> ModelUsage) list \<Rightarrow> (string \<times> ModelUsage) list" where
  "merge_models old new =
     foldl (\<lambda>acc (k, m). AList.map_default k m (\<lambda>prev. add_model prev m) acc) old new"

text \<open>
  Modelled from the spec: what one session with the in-window events \<open>evs\<close> adds to its
  project in the missing aggregator (4.2): one session, the sums of the events' tokens
  and costs (\<open>totalTokens = input + output\<close>), its active time in hours, its models.
\<close>

definition session_usage :: "int \<Rightarrow> UsageEvent list \<Rightarrow> ProjectUsageEntry" where
  "session_usage single evs =
     \<lparr>sessions = 1,
      totalTokens = sum_list (map ev_input evs) + sum_list (map ev_output evs),
      inputTokens = sum_list (map ev_input evs),
      outputTokens = sum_list (map ev_output evs),
      estimatedCostUSD = sum_list (map ev_cost evs),
      activeTimeHours = of_int (active_ms single (map ev_time evs)) / 3600000,
      models = session_models evs\<rparr>"

definition add_usage :: "ProjectUsageEntry \<Rightarrow> ProjectUsageEntry \<Rightarrow> ProjectUsageEntry" where
  "add_usage a b =
     \<lparr>sessions = sessions a + sessions b,
      totalTokens = totalTokens a + totalTokens b,
      inputTokens = inputTokens a + inputTokens b,
      outputTokens = outputTokens a + outputTokens b,
      estimatedCostUSD = estimatedCostUSD a + estimatedCostUSD b,
      activeTimeHours = activeTimeHours a + activeTimeHours b,
      models = merge_models (models a) (models b)\<rparr>"

text \<open>
  Modelled from the spec: the project a session is counted under in the missing
  aggregator: the attributed project's name, or \<open>_unmatched\<close>.
\<close>

definition session_key :: "ProjectRegistry \<Rightarrow> SessionRecord \<Rightarrow> string" where
  "session_key reg s =
     (case session_cwd s of
        None \<Rightarrow> ''_unmatched''
      | Some c \<Rightarrow> (case attribute c reg of Project n \<Rightarrow> n | Unmatched \<Rightarrow> ''_unmatched''))"

text \<open>
  Modelled from the spec: one step of the missing aggregator (4.2). A session is included
  if any of its events falls in the window, and only those events count.
\<close>

definition add_session ::
  "int \<Rightarrow> int option \<Rightarrow> int \<Rightarrow> ProjectRegistry \<Rightarrow> (string \<times> ProjectUsageEntry) list
   \<Rightarrow> SessionRecord \<Rightarrow> (string \<times> ProjectUsageEntry) list" where
  "add_session now window single reg acc s =
     (let evs = filter (in_window now window) (session_events s) in
      if evs = [] then acc
      else AList.map_default (session_key reg s) (session_usage single evs)
             (\<lambda>old. add_usage old (session_usage single evs)) acc)"

text \<open>
  Modelled from the spec: \<open>aggregate(days, projectFilter, sessions, registry)\<close> of the
  missing \<open>project_usage.py\<close> (4.2). A session file that does not parse is \<open>None\<close> and is
  skipped; a missing registry (\<open>None\<close>) yields an empty result; all sessions are
  attributed and the filter is applied afterwards; the grand totals are the sums across
  the included projects. \<open>stamp\<close> is the text of \<open>now\<close>.
\<close>

definition usage_totals :: "(string \<times> ProjectUsageEntry) list \<Rightarrow> UsageTotals" where
  "usage_totals included =
     \<lparr>totals_sessions = sum_list (map (\<lambda>(k, u). sessions u) included),
      totals_totalTokens = sum_list (map (\<lambda>(k, u). totalTokens u) included),
      totals_estimatedCostUSD = sum_list (map (\<lambda>(k, u). estimatedCostUSD u) included)\<rparr>"

definition aggregate ::
  "int \<Rightarrow> string \<Rightarrow> int \<Rightarrow> int option \<Rightarrow> string option \<Rightarrow> SessionRecord option list
   \<Rightarrow> ProjectRegistry option \<Rightarrow> ProjectUsageResult" where
  "aggregate now stamp single window only files registry =
     (let everything =
            (case registry of
               None \<Rightarrow> []
             | Some reg \<Rightarrow> foldl (add_session now window single reg) [] (List.map_filter id files));
          included =
            (case only of
               None \<Rightarrow> everything
             | Some p \<Rightarrow> filter (\<lambda>(k, u). k = p) everything)
      in \<lparr>generatedAt = stamp, days = window, projectFilter = only,
          totalProjects = length included, usage_projects = included,
          totals = usage_totals included\<rparr>)"

text \<open>
  The in-window events of the sessions that \<open>aggregate\<close> includes: those of every parsed
  session when there is no filter, those of the sessions counted under the filter's
  project otherwise.
\<close>

definition counted_events ::
  "int \<Rightarrow> int option \<Rightarrow> string option \<Rightarrow> SessionRecord option list \<Rightarrow> ProjectRegistry
   \<Rightarrow> UsageEvent list" where
  "counted_events now window only files reg =
     concat (map (\<lambda>s. filter (in_window now window) (session_events s))
       (filter (\<lambda>s. case only of None \<Rightarrow> True | Some p \<Rightarrow> session_key reg s = p)
          (List.map_filter id files)))"

subsection \<open>A sample registry and session\<close>

definition project_at :: "string \<Rightarrow> bool \<Rightarrow> ProjectEntry" where
  "project_at p on =
     \<lparr>path = p, enabled = on, tags = [], language = ''typescript'',
      discovered = ''2026-02-20'', description = [], lastCommit = None\<rparr>"

definition nested_registry :: ProjectRegistry where
  "nested_registry =
     \<lparr>version = 1, scannedAt = ''2026-02-20T17:00:00Z'', scanRoots = [''/a''],
      projects = [(''outer'', project_at ''/a'' True), (''inner'', project_at ''/a/b'' True),
                  (''off'', project_at ''/a/b/c'' False)]\<rparr>"

definition openclaw_registry :: ProjectRegistry where
  "openclaw_registry =
     \<lparr>version = 1, scannedAt = ''2026-02-20T17:00:00Z'', scanRoots = [''/dev''],
      projects = [(''openclaw'', project_at ''/dev/openclaw'' True)]\<rparr>"

definition ui_session :: SessionRecord where
  "ui_session =
     \<lparr>session_cwd = Some ''/dev/openclaw/ui'',
      session_events =
        [\<lparr>ev_time = 1000000000, ev_input = 100, ev_output = 50, ev_model = ''opus'',
          ev_cost = 1 / 100\<rparr>,
         \<lparr>ev_time = 1000060000, ev_input = 20, ev_output = 10, ev_model = ''opus'',
          ev_cost = 2 / 1000\<rparr>]\<rparr>"

definition stray_session :: SessionRecord where
  "stray_session =
     \<lparr>session_cwd = Some ''/dev/unknown-repo'',
      session_events =
        [\<lparr>ev_time = 1000030000, ev_input = 7, ev_output = 3, ev_model = ''haiku'',
          ev_cost = 1 / 1000\<rparr>]\<rparr>"

section \<open>Properties of the truncation\<close>

lemma length_truncated_suffix: "length truncated_suffix = 15"
  by (simp add: truncated_suffix_def)

lemma slice0_nonneg:
  "0 \<le> e \<Longrightarrow> slice0 s e = take (nat e) s"
  by (simp add: slice0_def Let_def min_def)

text \<open>
  C10. For every string \<open>block\<close> and non-negative \<open>maxChars\<close>,
  \<open>truncateContextBlock block maxChars\<close> is \<open>block\<close> itself when
  \<open>block.length \<le> maxChars\<close>; otherwise it is the first \<open>maxChars\<close> characters of
  \<open>block\<close> followed by the 15-character suffix made of a line feed and
  \<open>[...truncated]\<close>, and its length is exactly \<open>maxChars + 15\<close>.
\<close>

theorem truncateContextBlock_spec:
  assumes "0 \<le> maxChars"
  shows "(if int (length block) \<le> maxChars
          then truncateContextBlock block maxChars = block
          else truncateContextBlock block maxChars
                 = take (nat maxChars) block @ CHR 0x0A # ''[...truncated]''
             \<and> length (CHR 0x0A # ''[...truncated]'') = 15
             \<and> int (length (truncateContextBlock block maxChars)) = maxChars + 15)"
  using assms
  by (auto simp: truncateContextBlock_def slice0_nonneg truncated_suffix_def)

theorem truncateContextBlock_spec_witness:
  "(0::int) \<le> 4
   \<and> truncateContextBlock ''abc'' 4 = ''abc''
   \<and> truncateContextBlock ''abcdefgh'' 4 = ''abcd'' @ CHR 0x0A # ''[...truncated]''
   \<and> length (truncateContextBlock ''abcdefgh'' 4) = 19"
  using truncateContextBlock_spec [of 4 "''abc''"]
        truncateContextBlock_spec [of 4 "''abcdefgh''"]
  by simp

section \<open>Properties of the cache\<close>

text \<open>
  C9. For every session key \<open>k\<close> and payload \<open>p\<close>: after \<open>setBrainContext(k, p)\<close> at time
  \<open>t0\<close>, a \<open>getBrainContext(k)\<close> at time \<open>t1\<close> returns exactly \<open>p\<close> (and leaves the
  cache as it is) when fewer than 30000 milliseconds have elapsed; when more than 30000
  milliseconds have elapsed it returns \<open>undefined\<close> and removes the entry, so that a
  subsequent call, at any time \<open>t2\<close>, returns \<open>undefined\<close> as well.
\<close>

theorem brain_context_ttl:
  "(t1 - t0 < 30000 \<longrightarrow>
      getBrainContext t1 k (setBrainContext t0 k p c) = (Some p, setBrainContext t0 k p c))
   \<and> (t1 - t0 > 30000 \<longrightarrow>
      fst (getBrainContext t1 k (setBrainContext t0 k p c)) = None
      \<and> snd (getBrainContext t1 k (setBrainContext t0 k p c)) k = None
      \<and> fst (getBrainContext t2 k (snd (getBrainContext t1 k (setBrainContext t0 k p c)))) = None)"
  by (simp add: getBrainContext_def setBrainContext_def DEFAULT_TTL_MS_def)

theorem brain_context_ttl_witness:
  "getBrainContext 1029999 ''agent:main:main''
       (setBrainContext 1000000 ''agent:main:main''
          \<lparr>contextBlock = ''ctx'', memoriesUsed = 2, retrievalMs = 40,
           identity = None, entities = None\<rparr> Map.empty)
     = (Some \<lparr>contextBlock = ''ctx'', memoriesUsed = 2, retrievalMs = 40,
              identity = None, entities = None\<rparr>,
        setBrainContext 1000000 ''agent:main:main''
          \<lparr>contextBlock = ''ctx'', memoriesUsed = 2, retrievalMs = 40,
           identity = None, entities = None\<rparr> Map.empty)
   \<and> fst (getBrainContext 1030001 ''agent:main:main''
       (setBrainContext 1000000 ''agent:main:main''
          \<lparr>contextBlock = ''ctx'', memoriesUsed = 2, retrievalMs = 40,
           identity = None, entities = None\<rparr> Map.empty)) = None
   \<and> fst (getBrainContext 1030002 ''agent:main:main''
       (snd (getBrainContext 1030001 ''agent:main:main''
          (setBrainContext 1000000 ''agent:main:main''
             \<lparr>contextBlock = ''ctx'', memoriesUsed = 2, retrievalMs = 40,
              identity = None, entities = None\<rparr> Map.empty)))) = None"
  using brain_context_ttl [of 1029999 1000000 "''agent:main:main''"
          "\<lparr>contextBlock = ''ctx'', memoriesUsed = 2, retrievalMs = 40,
            identity = None, entities = None\<rparr>" Map.empty 1030002]
        brain_context_ttl [of 1030001 1000000 "''agent:main:main''"
          "\<lparr>contextBlock = ''ctx'', memoriesUsed = 2, retrievalMs = 40,
            identity = None, entities = None\<rparr>" Map.empty 1030002]
  by simp

section \<open>Properties of the gateway handlers\<close>

subsection \<open>\<open>projects.list\<close>\<close>

text \<open>
  C6. \<open>projects.list\<close> responds with success and an empty \<open>projects\<close> map when the
  registry file is absent, and with a structured \<open>UNAVAILABLE\<close> error, carrying the
  parser's message, when the file holds text that \<open>JSON.parse\<close> rejects. In both cases
  the handler returns its response (no exception escapes) and leaves the world as it was.
\<close>

theorem projects_list_missing_or_malformed:
  "(registry_file w = Absent \<longrightarrow>
      projects_list P w =
        (respond_ok (JObj [(''projects'', JObj []),
           (''message'', JStr ''No registry found. Run projects.scan first.'')]), w))
   \<and> (registry_file w = Content raw \<and> JSON_parse P raw = Inl err \<longrightarrow>
      projects_list P w = (respond_error (errorShape UNAVAILABLE err), w))"
  by (simp add: projects_list_def existsSync_def read_registry_def readFileSync_def)

theorem projects_list_missing_or_malformed_witness:
  "projects_list (sample_platform timing_out) (sample_world\<lparr>registry_file := Absent\<rparr>) =
     (respond_ok (JObj [(''projects'', JObj []),
        (''message'', JStr ''No registry found. Run projects.scan first.'')]),
      sample_world\<lparr>registry_file := Absent\<rparr>)
   \<and> projects_list (sample_platform timing_out)
         (sample_world\<lparr>registry_file := Content ''{ projects: ''\<rparr>) =
     (respond_error (errorShape UNAVAILABLE ''SyntaxError: Unexpected token in JSON''),
      sample_world\<lparr>registry_file := Content ''{ projects: ''\<rparr>)"
proof -
  have absent: "registry_file (sample_world\<lparr>registry_file := Absent\<rparr>) = Absent"
    by simp
  have malformed:
    "registry_file (sample_world\<lparr>registry_file := Content ''{ projects: ''\<rparr>)
       = Content ''{ projects: ''
     \<and> JSON_parse (sample_platform timing_out) ''{ projects: ''
       = Inl ''SyntaxError: Unexpected token in JSON''"
    by code_simp
  show ?thesis
    using projects_list_missing_or_malformed
            [where w = "sample_world\<lparr>registry_file := Absent\<rparr>"
               and P = "sample_platform timing_out"]
          projects_list_missing_or_malformed
            [where w = "sample_world\<lparr>registry_file := Content ''{ projects: ''\<rparr>"
               and raw = "''{ projects: ''" and P = "sample_platform timing_out"
               and err = "''SyntaxError: Unexpected token in JSON''"]
          absent malformed
    by simp
qed

subsection \<open>\<open>projects.toggle\<close>\<close>

lemma toggle_registry_error_keeps_world:
  "snd (toggle_registry P w n en) = w \<or> (\<exists>v. fst (toggle_registry P w n en) = respond_ok v)"
  by (simp add: toggle_registry_def split: sum.splits)

lemma projects_toggle_error_keeps_world:
  "snd (projects_toggle P w params) = w \<or> (\<exists>v. fst (projects_toggle P w params) = respond_ok v)"
  using toggle_registry_error_keeps_world
  by (simp add: projects_toggle_def split: option.splits)

text \<open>
  C1, as the code has it. A \<open>projects.toggle\<close> request with a non-empty project name and
  a boolean \<open>enabled\<close>, against a registry file that parses to an object whose
  \<open>projects\<close> map has no property of that name, fails with the structured error
  \<open>INVALID_REQUEST\<close> and the message \<open>Project not found: <name>\<close>, provided the name is
  not one that every object inherits from \<open>Object.prototype\<close>. The world is unchanged.
\<close>

theorem toggle_absent_is_invalid_request:
  assumes "own params ''project'' = Some (JStr projectName)" and "projectName \<noteq> []"
    and "own params ''enabled'' = Some (JBool en)"
    and "registry_file w = Content raw" and "JSON_parse P raw = Inr reg"
    and "own reg ''projects'' = Some (JObj ps)" and "map_of ps projectName = None"
    and "projectName \<notin> set Object_prototype_keys"
  shows "projects_toggle P w params =
           (respond_error
              (errorShape INVALID_REQUEST (''Project not found: '' @ projectName)), w)"
proof -
  from assms(6) have "reg \<noteq> JNull"
    by (auto simp: own_def)
  with assms(6-8) have "lookup_project P reg projectName = Inr Undefined"
    by (cases reg) (simp_all add: lookup_project_def own_def)
  with assms(1-5) show ?thesis
    by (simp add: projects_toggle_def toggle_project_param_def toggle_enabled_param_def
          toggle_registry_def existsSync_def read_registry_def readFileSync_def)
qed

theorem toggle_absent_is_invalid_request_witness:
  "projects_toggle (sample_platform timing_out) sample_world
     (JObj [(''project'', JStr ''ghost''), (''enabled'', JBool True)]) =
   (respond_error (errorShape INVALID_REQUEST ''Project not found: ghost''), sample_world)"
proof -
  have "own (JObj [(''project'', JStr ''ghost''), (''enabled'', JBool True)]) ''project''
          = Some (JStr ''ghost'')"
    and "''ghost'' \<noteq> []"
    and "own (JObj [(''project'', JStr ''ghost''), (''enabled'', JBool True)]) ''enabled''
          = Some (JBool True)"
    and "registry_file sample_world = Content (JSON_stringify sample_registry @ [CHR 0x0A])"
    and "JSON_parse (sample_platform timing_out) (JSON_stringify sample_registry @ [CHR 0x0A])
          = Inr sample_registry"
    and "own sample_registry ''projects'' =
           Some (JObj [(''openclaw'',
              JObj [(''path'', JStr ''/home/u/dev/openclaw''), (''enabled'', JBool True)])])"
    and "map_of [(''openclaw'',
              JObj [(''path'', JStr ''/home/u/dev/openclaw''), (''enabled'', JBool True)])]
           ''ghost'' = None"
    and "''ghost'' \<notin> set Object_prototype_keys"
    by (simp_all add: own_def sample_world_def sample_platform_def parse_of_def
          sample_registry_def Object_prototype_keys_def)
  from toggle_absent_is_invalid_request [OF this] show ?thesis
    by simp
qed

text \<open>
  The claim C1 names the code \<open>NotFound\<close>; the handler answers \<open>INVALID_REQUEST\<close>.
\<close>

theorem toggle_absent_not_found_counterexample:
  "(case own sample_registry ''projects'' of
      None \<Rightarrow> None
    | Some ps \<Rightarrow> own ps ''ghost'') = None
   \<and> response_code (fst (projects_toggle (sample_platform timing_out) sample_world
       (JObj [(''project'', JStr ''ghost''), (''enabled'', JBool True)])))
     = Some INVALID_REQUEST
   \<and> response_code (fst (projects_toggle (sample_platform timing_out) sample_world
       (JObj [(''project'', JStr ''ghost''), (''enabled'', JBool True)])))
     \<noteq> Some NOT_FOUND"
  by code_simp

text \<open>
  C5. If \<open>projects.toggle\<close> fails because the named project is absent from the registry
  (it answers \<open>Project not found: <name>\<close>), the world after the call is the world before
  it: the registry file is not written, and reading it again yields what it held.
\<close>

theorem toggle_not_found_leaves_file:
  "fst (projects_toggle P w params) =
     respond_error (errorShape INVALID_REQUEST (''Project not found: '' @ projectName))
   \<longrightarrow> snd (projects_toggle P w params) = w
       \<and> registry_file (snd (projects_toggle P w params)) = registry_file w
       \<and> read_registry P (snd (projects_toggle P w params)) = read_registry P w"
  using projects_toggle_error_keeps_world [of P w params]
  by auto

theorem toggle_not_found_leaves_file_witness:
  "snd (projects_toggle (sample_platform timing_out) sample_world
     (JObj [(''project'', JStr ''ghost''), (''enabled'', JBool True)])) = sample_world
   \<and> read_registry (sample_platform timing_out)
       (snd (projects_toggle (sample_platform timing_out) sample_world
          (JObj [(''project'', JStr ''ghost''), (''enabled'', JBool True)])))
     = Inr sample_registry"
proof -
  have failed:
    "fst (projects_toggle (sample_platform timing_out) sample_world
       (JObj [(''project'', JStr ''ghost''), (''enabled'', JBool True)])) =
     respond_error (errorShape INVALID_REQUEST (''Project not found: '' @ ''ghost''))"
    by code_simp
  have before: "read_registry (sample_platform timing_out) sample_world = Inr sample_registry"
    by (simp add: read_registry_def readFileSync_def sample_world_def sample_platform_def
          parse_of_def)
  from toggle_not_found_leaves_file
         [where P = "sample_platform timing_out" and w = sample_world
            and params = "JObj [(''project'', JStr ''ghost''), (''enabled'', JBool True)]"
            and projectName = "''ghost''"]
       failed before
  show ?thesis
    by simp
qed

text \<open>
  C4, at a name that the \<open>projects\<close> map only inherits. The sample registry has the one
  project \<open>openclaw\<close>. A \<open>projects.toggle\<close> for \<open>constructor\<close> passes the test
  \<open>!registry.projects?.[projectName]\<close> (the inherited \<open>Object\<close> function is truthy), the
  assignment lands on that function, the file is written back with the registry as it was
  read, and the handler reports success: no \<open>projects.constructor.enabled\<close> is persisted.
\<close>

theorem toggle_inherited_name_reports_success:
  "(case own sample_registry ''projects'' of
      None \<Rightarrow> None
    | Some ps \<Rightarrow> own ps ''constructor'') = None
   \<and> projects_toggle (sample_platform timing_out) sample_world
       (JObj [(''project'', JStr ''constructor''), (''enabled'', JBool False)]) =
     (respond_ok (JObj [(''project'', JStr ''constructor''), (''enabled'', JBool False)]),
      sample_world)
   \<and> read_registry (sample_platform timing_out)
       (snd (projects_toggle (sample_platform timing_out) sample_world
          (JObj [(''project'', JStr ''constructor''), (''enabled'', JBool False)])))
     = Inr sample_registry"
  by code_simp

text \<open>
  What \<open>projects.toggle\<close> does for a name that is an own property of the \<open>projects\<close> map
  with an object as its value: it answers success and writes the file as
  \<open>JSON.stringify(registry, null, 2)\<close> and a line feed, where the registry is the one read
  with the entry's \<open>enabled\<close> replaced by the requested boolean. The top-level members
  other than \<open>projects\<close>, the projects other than the named one and the fields of the
  named project other than \<open>enabled\<close> are as they were read, in the same order.
\<close>

theorem toggle_own_entry_persists:
  assumes "own params ''project'' = Some (JStr n)" and "n \<noteq> []"
    and "own params ''enabled'' = Some (JBool en)"
    and "registry_file w = Content raw" and "JSON_parse P raw = Inr (JObj members)"
    and "map_of members ''projects'' = Some (JObj ps)"
    and "map_of ps n = Some (JObj entry)"
    and "registry_writable w"
  defines "entry' \<equiv> AList.update ''enabled'' (JBool en) entry"
  defines "ps' \<equiv> AList.update n (JObj entry') ps"
  defines "members' \<equiv> AList.map_entry ''projects'' (\<lambda>old. JObj ps') members"
  shows "projects_toggle P w params =
           (respond_ok (JObj [(''project'', JStr n), (''enabled'', JBool en)]),
            w\<lparr>registry_file := Content (JSON_stringify (JObj members') @ [CHR 0x0A])\<rparr>)
         \<and> map fst members' = map fst members
         \<and> map_of members' = (map_of members)(''projects'' \<mapsto> JObj ps')
         \<and> map fst ps' = map fst ps
         \<and> map_of ps' = (map_of ps)(n \<mapsto> JObj entry')
         \<and> map_of entry' = (map_of entry)(''enabled'' \<mapsto> JBool en)"
proof -
  have look: "lookup_project P (JObj members) n = Inr (Own (JObj entry))"
    using assms(6,7) by (simp add: lookup_project_def own_def)
  have same: "AList.map_entry ''projects''
                (\<lambda>v. case v of
                     JObj ps \<Rightarrow> JObj (AList.update n (JObj entry') ps)
                   | JArr xs \<Rightarrow>
                       (case array_index n (length xs) of
                          Some i \<Rightarrow> JArr (xs[i := JObj entry'])
                        | None \<Rightarrow> JArr xs)
                   | _ \<Rightarrow> v) members = members'"
    using assms(6) unfolding members'_def ps'_def
    by (induction members) auto
  have put: "assign_enabled (JObj members) n (Own (JObj entry)) en = Inr (JObj members')"
    using same unfolding entry'_def by (simp add: assign_enabled_def put_project_def)
  have run: "projects_toggle P w params =
           (respond_ok (JObj [(''project'', JStr n), (''enabled'', JBool en)]),
            w\<lparr>registry_file := Content (JSON_stringify (JObj members') @ [CHR 0x0A])\<rparr>)"
    using assms(1-5,8) look put
    by (simp add: projects_toggle_def toggle_project_param_def toggle_enabled_param_def
          toggle_registry_def existsSync_def read_registry_def readFileSync_def
          writeFileSync_def)
  have keys_members: "map fst members' = map fst members"
    unfolding members'_def by (induction members) auto
  have map_members: "map_of members' = (map_of members)(''projects'' \<mapsto> JObj ps')"
    using assms(6) unfolding members'_def by (induction members) (auto simp: fun_eq_iff)
  have keys_ps: "map fst ps' = map fst ps"
    using assms(7) unfolding ps'_def by (induction ps) (auto split: if_splits)
  have map_ps: "map_of ps' = (map_of ps)(n \<mapsto> JObj entry')"
    unfolding ps'_def by (simp add: update_conv')
  have map_entry: "map_of entry' = (map_of entry)(''enabled'' \<mapsto> JBool en)"
    unfolding entry'_def by (simp add: update_conv')
  show ?thesis
    using run keys_members map_members keys_ps map_ps map_entry by simp
qed

theorem toggle_own_entry_persists_witness:
  "projects_toggle (sample_platform timing_out) sample_world
     (JObj [(''project'', JStr ''openclaw''), (''enabled'', JBool False)]) =
   (respond_ok (JObj [(''project'', JStr ''openclaw''), (''enabled'', JBool False)]),
    sample_world\<lparr>registry_file := Content (JSON_stringify
      (JObj [(''version'', JNum 1),
             (''projects'', JObj [(''openclaw'',
                JObj [(''path'', JStr ''/home/u/dev/openclaw''), (''enabled'', JBool False)])])])
      @ [CHR 0x0A])\<rparr>)"
proof -
  have "own (JObj [(''project'', JStr ''openclaw''), (''enabled'', JBool False)]) ''project''
          = Some (JStr ''openclaw'')"
    and "''openclaw'' \<noteq> []"
    and "own (JObj [(''project'', JStr ''openclaw''), (''enabled'', JBool False)]) ''enabled''
          = Some (JBool False)"
    and "registry_file sample_world = Content (JSON_stringify sample_registry @ [CHR 0x0A])"
    and "JSON_parse (sample_platform timing_out) (JSON_stringify sample_registry @ [CHR 0x0A])
          = Inr (JObj [(''version'', JNum 1),
              (''projects'', JObj [(''openclaw'',
                 JObj [(''path'', JStr ''/home/u/dev/openclaw''), (''enabled'', JBool True)])])])"
    and "map_of [(''version'', JNum 1),
              (''projects'', JObj [(''openclaw'',
                 JObj [(''path'', JStr ''/home/u/dev/openclaw''), (''enabled'', JBool True)])])]
           ''projects''
          = Some (JObj [(''openclaw'',
              JObj [(''path'', JStr ''/home/u/dev/openclaw''), (''enabled'', JBool True)])])"
    and "map_of [(''openclaw'',
              JObj [(''path'', JStr ''/home/u/dev/openclaw''), (''enabled'', JBool True)])]
           ''openclaw''
          = Some (JObj [(''path'', JStr ''/home/u/dev/openclaw''), (''enabled'', JBool True)])"
    and "registry_writable sample_world"
    by (simp_all add: own_def sample_world_def sample_platform_def parse_of_def
          sample_registry_def)
  from toggle_own_entry_persists [OF this] show ?thesis
    by simp
qed

subsection \<open>The script runner\<close>

lemma runPythonScript_calls:
  "calls (snd (runPythonScript P w s args)) =
     calls w @ (if script_exists P (path_join P [scriptsDir P, s])
                then [python_call (path_join P [scriptsDir P, s]) args] else [])"
  by (simp add: runPythonScript_def Let_def split: sum.splits)

lemma runPythonScript_missing:
  "\<not> script_exists P (path_join P [scriptsDir P, s]) \<Longrightarrow>
     \<exists>err. fst (runPythonScript P w s args) = Inl err"
  by (simp add: runPythonScript_def Let_def)

lemma runPythonScript_rejected:
  "script_exists P (path_join P [scriptsDir P, s]) \<Longrightarrow>
   fst (execFile P (python_call (path_join P [scriptsDir P, s]) args) (registry_file w)) = Inl err \<Longrightarrow>
     fst (runPythonScript P w s args) = Inl err"
  by (simp add: runPythonScript_def Let_def)

lemma python_call_options:
  "opt_timeout (python_call p args) = 30000 \<and> opt_maxBuffer (python_call p args) = 10485760"
  by (simp add: python_call_def)

lemma respond_result_rejected:
  "fst r = Inl err \<Longrightarrow> fst (respond_result r) = respond_error (errorShape UNAVAILABLE err)"
  by (simp add: respond_result_def)

lemma respond_result_world: "snd (respond_result r) = snd r"
  by (simp add: respond_result_def split: sum.splits)

lemma rescan_rejected:
  "fst (runPythonScript P w ''project_scan.py'' (scan_args P roots)) = Inl err \<Longrightarrow>
     fst (rescan P w roots) = respond_error (errorShape UNAVAILABLE err)"
  by (simp add: rescan_def Let_def)

lemma rescan_world:
  "snd (rescan P w roots) = snd (runPythonScript P w ''project_scan.py'' (scan_args P roots))"
  by (simp add: rescan_def Let_def split: sum.splits)

lemma script_run_bounded:
  assumes world: "snd r = snd (runPythonScript P w s args)"
    and rejected: "\<And>err. fst (runPythonScript P w s args) = Inl err \<Longrightarrow>
                     fst r = respond_error (errorShape UNAVAILABLE err)"
  shows "take (length (calls w)) (calls (snd r)) = calls w
     \<and> (\<forall>c \<in> set (drop (length (calls w)) (calls (snd r))).
           opt_timeout c = 30000 \<and> opt_maxBuffer c = 10485760
           \<and> (case fst (execFile P c (registry_file w)) of
                Inl err \<Rightarrow> fst r = respond_error (errorShape UNAVAILABLE err)
              | Inr out \<Rightarrow> True))
     \<and> (drop (length (calls w)) (calls (snd r)) = [] \<longrightarrow>
           response_code (fst r) = Some UNAVAILABLE)"
proof (cases "script_exists P (path_join P [scriptsDir P, s])")
  case True
  let ?c = "python_call (path_join P [scriptsDir P, s]) args"
  have new: "calls (snd r) = calls w @ [?c]"
    using True world by (simp add: runPythonScript_calls)
  have caught: "case fst (execFile P ?c (registry_file w)) of
                  Inl err \<Rightarrow> fst r = respond_error (errorShape UNAVAILABLE err)
                | Inr out \<Rightarrow> True"
    using runPythonScript_rejected [OF True] rejected
    by (auto split: sum.splits)
  show ?thesis
    using new caught python_call_options [of "path_join P [scriptsDir P, s]" args]
    by simp
next
  case False
  have new: "calls (snd r) = calls w"
    using False world by (simp add: runPythonScript_calls)
  obtain err where "fst (runPythonScript P w s args) = Inl err"
    using runPythonScript_missing [OF False] by blast
  then have "fst r = respond_error (errorShape UNAVAILABLE err)"
    by (rule rejected)
  with new show ?thesis
    by simp
qed

text \<open>
  C7. Whatever \<open>projects.usage\<close>, \<open>projects.git\<close> and \<open>projects.scan\<close> add to the log of
  \<open>execFile\<close> calls carries the options \<open>timeout: 30000\<close> (milliseconds) and
  \<open>maxBuffer: 10485760\<close> (10 MB); whenever such a call is rejected (the child fails, is
  killed at the timeout or exceeds the buffer) the handler responds with the structured
  error \<open>UNAVAILABLE\<close> carrying the rejection's text; and when no call is made at all (the
  script is missing) the response is \<open>UNAVAILABLE\<close> too. The handlers are total functions
  to their response: nothing escapes.
\<close>

theorem script_invocations_bounded_and_caught:
  assumes "r = projects_usage P w params \<or> r = projects_git P w params
           \<or> r = projects_scan P w params"
  shows "take (length (calls w)) (calls (snd r)) = calls w
     \<and> (\<forall>c \<in> set (drop (length (calls w)) (calls (snd r))).
           opt_timeout c = 30000 \<and> opt_maxBuffer c = 10485760
           \<and> (case fst (execFile P c (registry_file w)) of
                Inl err \<Rightarrow> fst r = respond_error (errorShape UNAVAILABLE err)
              | Inr out \<Rightarrow> True))
     \<and> (drop (length (calls w)) (calls (snd r)) = [] \<longrightarrow>
           response_code (fst r) = Some UNAVAILABLE)"
proof -
  consider (usage) "r = projects_usage P w params" | (git) "r = projects_git P w params"
    | (scan) "r = projects_scan P w params"
    using assms by blast
  then show ?thesis
  proof cases
    case usage
    show ?thesis
      by (rule script_run_bounded [where s = "''project_usage.py''" and args = "report_args params"])
         (simp_all add: usage projects_usage_def respond_result_world respond_result_rejected)
  next
    case git
    show ?thesis
      by (rule script_run_bounded [where s = "''git_activity.py''" and args = "report_args params"])
         (simp_all add: git projects_git_def respond_result_world respond_result_rejected)
  next
    case scan
    show ?thesis
      by (rule script_run_bounded
                 [where s = "''project_scan.py''" and args = "scan_args P (scan_roots P params)"])
         (simp_all add: scan projects_scan_def rescan_world rescan_rejected)
  qed
qed

theorem script_invocations_bounded_and_caught_witness:
  "calls (snd (projects_usage (sample_platform timing_out) sample_world
       (JObj [(''days'', JNum 7)]))) =
     [python_call ''/opt/openclaw/skills/dev-cockpit/scripts/project_usage.py''
        [JStr ''--format'', JStr ''json'', JStr ''--days'', JStr ''7'']]
   \<and> opt_timeout (python_call ''/opt/openclaw/skills/dev-cockpit/scripts/project_usage.py''
        [JStr ''--format'', JStr ''json'', JStr ''--days'', JStr ''7'']) = 30000
   \<and> opt_maxBuffer (python_call ''/opt/openclaw/skills/dev-cockpit/scripts/project_usage.py''
        [JStr ''--format'', JStr ''json'', JStr ''--days'', JStr ''7'']) = 10485760
   \<and> fst (projects_usage (sample_platform timing_out) sample_world (JObj [(''days'', JNum 7)]))
     = respond_error
         (errorShape UNAVAILABLE ''Error: Command failed: python3 (killed by SIGTERM)'')"
proof -
  let ?P = "sample_platform timing_out"
  let ?params = "JObj [(''days'', JNum 7)]"
  let ?c = "python_call ''/opt/openclaw/skills/dev-cockpit/scripts/project_usage.py''
              [JStr ''--format'', JStr ''json'', JStr ''--days'', JStr ''7'']"
  have seven: "Number_toString 7 = ''7''"
    by code_simp
  have made: "calls (snd (projects_usage ?P sample_world ?params)) = [?c]"
    by (simp add: projects_usage_def respond_result_world runPythonScript_calls
          sample_platform_def sample_world_def report_args_def days_args_def project_args_def
          own_def seven)
  have before: "calls sample_world = []"
    by (simp add: sample_world_def)
  have killed: "fst (execFile ?P ?c (registry_file sample_world))
                  = Inl ''Error: Command failed: python3 (killed by SIGTERM)''"
    by (simp add: sample_platform_def timing_out_def)
  from script_invocations_bounded_and_caught
         [where r = "projects_usage ?P sample_world ?params" and P = ?P and w = sample_world
            and params = ?params]
       made before killed
  show ?thesis
    by simp
qed

subsection \<open>Validation of roots and project names\<close>

text \<open>
  C2, on \<open>projects.ts\<close> as it stands. \<open>projects.scan\<close> with the root \<open>/etc\<close> (outside
  the home directory \<open>/home/u\<close>, so \<open>sanitizePath\<close> refuses it) runs the scanner with
  \<open>--root /etc\<close>, and \<open>projects.usage\<close> with the project name \<open>../../etc/passwd\<close>
  (refused by \<open>sanitizeProjectName\<close>) runs the usage script with that name: neither
  handler checks what it forwards. The validating revision answers \<open>INVALID_REQUEST\<close> to
  both requests and runs nothing.
\<close>

theorem unvalidated_input_reaches_the_scripts:
  "sanitizePath (sample_platform timing_out) ''/etc'' = None
   \<and> calls (snd (projects_scan (sample_platform timing_out) sample_world
        (JObj [(''roots'', JArr [JStr ''/etc''])]))) =
     [python_call ''/opt/openclaw/skills/dev-cockpit/scripts/project_scan.py''
        [JStr ''--output'', JStr ''/home/u/.openclaw/cockpit/projects.json'',
         JStr ''--root'', JStr ''/etc'']]
   \<and> sanitizeProjectName ''../../etc/passwd'' = None
   \<and> calls (snd (projects_usage (sample_platform timing_out) sample_world
        (JObj [(''project'', JStr ''../../etc/passwd'')]))) =
     [python_call ''/opt/openclaw/skills/dev-cockpit/scripts/project_usage.py''
        [JStr ''--format'', JStr ''json'', JStr ''--project'', JStr ''../../etc/passwd'']]
   \<and> projects_scan_validated (sample_platform timing_out) sample_world
        (JObj [(''roots'', JArr [JStr ''/etc''])]) =
     (respond_error (errorShape INVALID_REQUEST ''No valid roots after path validation''),
      sample_world)
   \<and> projects_usage_validated (sample_platform timing_out) sample_world
        (JObj [(''project'', JStr ''../../etc/passwd'')]) =
     (respond_error (errorShape INVALID_REQUEST ''Invalid project name''), sample_world)"
  by (simp add: projects_scan_def rescan_world projects_usage_def respond_result_world
        runPythonScript_calls sample_platform_def sample_world_def report_args_def
        days_args_def project_args_def scan_args_def scan_roots_def own_def
        REGISTRY_PATH_def COCKPIT_DIR_def sanitizePath_def sanitizeProjectName_def
        projects_scan_validated_def validated_roots_def strings_of_def List.map_filter_def
        projects_usage_validated_def validated_report_def)

subsection \<open>The validating revision\<close>

lemma has_dotdot_iff: "has_dotdot s \<longleftrightarrow> (\<exists>a b. s = a @ ''..'' @ b)"
proof
  show "has_dotdot s \<Longrightarrow> \<exists>a b. s = a @ ''..'' @ b"
  proof (induction s rule: has_dotdot.induct)
    case (1 a b cs)
    show ?case
    proof (cases "a = CHR ''.'' \<and> b = CHR ''.''")
      case True
      then have "a # b # cs = [] @ ''..'' @ cs"
        by simp
      then show ?thesis
        by blast
    next
      case False
      with 1 obtain p q where "b # cs = p @ ''..'' @ q"
        by auto
      then have "a # b # cs = (a # p) @ ''..'' @ q"
        by simp
      then show ?thesis
        by blast
    qed
  qed simp_all
next
  assume "\<exists>a b. s = a @ ''..'' @ b"
  then obtain a b where "s = a @ ''..'' @ b"
    by blast
  then show "has_dotdot s"
  proof (induction a arbitrary: s)
    case Nil
    then show ?case by simp
  next
    case (Cons x a)
    then have rest: "has_dotdot (a @ ''..'' @ b)"
      by simp
    obtain y ys where "a @ ''..'' @ b = y # ys"
      by (cases "a @ ''..'' @ b") auto
    with rest Cons.prems show ?case
      by simp
  qed
qed

lemma validated_roots_within_home:
  "dir \<in> set (validated_roots P params) \<Longrightarrow>
     (dir = HOME P \<or> prefix (HOME P @ ''/'') dir)
     \<and> (\<exists>p. JStr p \<in> set (scan_roots P params) \<and> dir = path_resolve P p)"
  by (auto simp: validated_roots_def List.map_filter_def strings_of_def sanitizePath_def
        Let_def split: if_splits json.splits)

text \<open>
  In the validating revision of the handlers, every root that \<open>projects.scan\<close> hands to
  the scanner is the resolved form of a string the caller sent (or of the default) and
  is the home directory or lies below it; the only call \<open>projects.scan\<close> can add to the
  log is the scanner's with those roots; and \<open>projects.usage\<close> and \<open>projects.git\<close> answer
  \<open>INVALID_REQUEST\<close>, leaving the world as it was, to every project name that holds a
  slash, a backslash or two consecutive dots.
\<close>

theorem validation_guards_the_scripts:
  "(\<forall>dir \<in> set (validated_roots P params).
      (dir = HOME P \<or> prefix (HOME P @ ''/'') dir)
      \<and> (\<exists>p. JStr p \<in> set (scan_roots P params) \<and> dir = path_resolve P p))
   \<and> set (drop (length (calls w)) (calls (snd (projects_scan_validated P w params))))
       \<subseteq> {python_call (path_join P [scriptsDir P, ''project_scan.py''])
            (scan_args P (map JStr (validated_roots P params)))}
   \<and> (own params ''project'' = Some (JStr s)
        \<and> (CHR ''/'' \<in> set s \<or> CHR 0x5C \<in> set s \<or> (\<exists>a b. s = a @ ''..'' @ b)) \<longrightarrow>
      projects_usage_validated P w params =
        (respond_error (errorShape INVALID_REQUEST ''Invalid project name''), w)
      \<and> projects_git_validated P w params =
        (respond_error (errorShape INVALID_REQUEST ''Invalid project name''), w))"
proof -
  have roots: "\<forall>dir \<in> set (validated_roots P params).
      (dir = HOME P \<or> prefix (HOME P @ ''/'') dir)
      \<and> (\<exists>p. JStr p \<in> set (scan_roots P params) \<and> dir = path_resolve P p)"
    using validated_roots_within_home by blast
  have scan: "set (drop (length (calls w)) (calls (snd (projects_scan_validated P w params))))
       \<subseteq> {python_call (path_join P [scriptsDir P, ''project_scan.py''])
            (scan_args P (map JStr (validated_roots P params)))}"
    by (auto simp: projects_scan_validated_def Let_def rescan_world runPythonScript_calls)
  have names: "projects_usage_validated P w params =
        (respond_error (errorShape INVALID_REQUEST ''Invalid project name''), w)
      \<and> projects_git_validated P w params =
        (respond_error (errorShape INVALID_REQUEST ''Invalid project name''), w)"
    if "own params ''project'' = Some (JStr s)"
      and "CHR ''/'' \<in> set s \<or> CHR 0x5C \<in> set s \<or> (\<exists>a b. s = a @ ''..'' @ b)"
  proof -
    from that(2) have "sanitizeProjectName s = None"
      by (simp add: sanitizeProjectName_def has_dotdot_iff)
    with that(1) show ?thesis
      by (simp add: projects_usage_validated_def projects_git_validated_def
            validated_report_def)
  qed
  from roots scan names show ?thesis
    by blast
qed

theorem validation_guards_the_scripts_witness:
  "validated_roots (sample_platform timing_out)
     (JObj [(''roots'', JArr [JStr ''/home/u/dev'', JStr ''/etc'', JNum 5,
                              JStr ''/home/username'']),
            (''project'', JStr ''a/../b'')])
     = [''/home/u/dev'']
   \<and> projects_usage_validated (sample_platform timing_out) sample_world
       (JObj [(''roots'', JArr [JStr ''/home/u/dev'', JStr ''/etc'', JNum 5,
                                JStr ''/home/username'']),
              (''project'', JStr ''a/../b'')])
     = (respond_error (errorShape INVALID_REQUEST ''Invalid project name''), sample_world)"
proof -
  let ?params = "JObj [(''roots'', JArr [JStr ''/home/u/dev'', JStr ''/etc'', JNum 5,
                                          JStr ''/home/username'']),
                       (''project'', JStr ''a/../b'')]"
  have kept: "validated_roots (sample_platform timing_out) ?params = [''/home/u/dev'']"
    by (simp add: validated_roots_def List.map_filter_def strings_of_def scan_roots_def
          own_def sanitizePath_def sample_platform_def)
  have sent: "own ?params ''project'' = Some (JStr ''a/../b'')
      \<and> (CHR ''/'' \<in> set ''a/../b'' \<or> CHR 0x5C \<in> set ''a/../b''
         \<or> (\<exists>a b. ''a/../b'' = a @ ''..'' @ b))"
    by (simp add: own_def)
  from validation_guards_the_scripts
         [where P = "sample_platform timing_out" and params = ?params and w = sample_world
            and s = "''a/../b''"]
       kept sent
  show ?thesis
    by blast
qed

section \<open>Properties of session attribution\<close>

lemma longest_match_empty: "longest_match xs = None \<longleftrightarrow> xs = []"
  by (cases xs) (auto split: option.splits)

lemma longest_match_is_longest:
  "longest_match xs = Some y \<Longrightarrow>
     y \<in> set xs \<and> (\<forall>x \<in> set xs. length (path (snd x)) \<le> length (path (snd y)))"
proof (induction xs arbitrary: y)
  case Nil
  then show ?case by simp
next
  case (Cons x xs)
  show ?case
  proof (cases "longest_match xs")
    case None
    with Cons.prems show ?thesis
      by (simp add: longest_match_empty)
  next
    case (Some z)
    from Cons.IH [OF Some] Cons.prems Some show ?thesis
      by (auto split: if_splits)
  qed
qed

lemma path_matches_prefix: "path_matches c p \<Longrightarrow> prefix p c"
  by (auto simp: path_matches_def dest: append_prefixD)

lemma matches_of_equal_length:
  assumes "path_matches c p" and "path_matches c q" and "length p = length q"
  shows "p = q"
proof -
  from assms(1) obtain r where "c = p @ r"
    using path_matches_prefix by (auto simp: prefix_def)
  moreover from assms(2) obtain t where "c = q @ t"
    using path_matches_prefix by (auto simp: prefix_def)
  ultimately show ?thesis
    using assms(3) by (metis append_eq_append_conv)
qed

text \<open>
  C3. For a registry that keeps the data model's invariant (every path is absolute, no
  two projects share a path) and every \<open>cwd\<close>: if \<open>attribute\<close> returns a project, that
  project is in the registry and enabled, \<open>cwd\<close> equals its path or starts with its path
  followed by a slash, and every other enabled project matching in that way has a
  strictly shorter path; if \<open>attribute\<close> returns \<open>_unmatched\<close>, no enabled project matches
  in that way. So a project whose path is a mere string prefix of \<open>cwd\<close>, without the
  separator after it, is never returned.
\<close>

theorem attribute_longest_match:
  assumes "\<forall>(m, d) \<in> set (projects reg). prefix ''/'' (path d)"
    and "distinct (map (\<lambda>(m, d). path d) (projects reg))"
  shows "case attribute c reg of
           Project n \<Rightarrow>
             (\<exists>e. (n, e) \<in> set (projects reg) \<and> enabled e
                \<and> (c = path e \<or> prefix (path e @ ''/'') c)
                \<and> (\<forall>(m, d) \<in> set (projects reg).
                      (m, d) \<noteq> (n, e) \<and> enabled d \<and> (c = path d \<or> prefix (path d @ ''/'') c)
                      \<longrightarrow> length (path d) < length (path e)))
         | Unmatched \<Rightarrow>
             (\<forall>(m, d) \<in> set (projects reg).
                \<not> (enabled d \<and> (c = path d \<or> prefix (path d @ ''/'') c)))"
proof (cases "c = []")
  case True
  have "\<not> (c = path d \<or> prefix (path d @ ''/'') c)" if "(m, d) \<in> set (projects reg)" for m d
    using assms(1) that True by auto
  then show ?thesis
    using True by (auto simp: attribute_def)
next
  case False
  let ?cands = "filter (\<lambda>(n, e). enabled e \<and> path_matches c (path e)) (projects reg)"
  show ?thesis
  proof (cases "longest_match ?cands")
    case None
    then have "?cands = []"
      by (simp add: longest_match_empty)
    then have "\<forall>(m, d) \<in> set (projects reg). \<not> (enabled d \<and> path_matches c (path d))"
      by (auto simp: filter_empty_conv)
    then show ?thesis
      using False None by (auto simp: attribute_def path_matches_def)
  next
    case (Some y)
    obtain n e where y: "y = (n, e)"
      by (cases y)
    from longest_match_is_longest [OF Some] y
    have best: "(n, e) \<in> set ?cands"
      and longest: "\<forall>x \<in> set ?cands. length (path (snd x)) \<le> length (path e)"
      by auto
    from best have here: "(n, e) \<in> set (projects reg)" and on: "enabled e"
      and fits: "path_matches c (path e)"
      by auto
    have shorter: "length (path d) < length (path e)"
      if "(m, d) \<in> set (projects reg)" and "(m, d) \<noteq> (n, e)" and "enabled d"
        and "path_matches c (path d)" for m d
    proof (rule ccontr)
      assume "\<not> length (path d) < length (path e)"
      moreover from that have "(m, d) \<in> set ?cands"
        by simp
      then have "length (path d) \<le> length (path e)"
        using longest by auto
      ultimately have "length (path d) = length (path e)"
        by simp
      with that(4) fits have same: "path d = path e"
        by (rule matches_of_equal_length)
      from assms(2) have inj: "inj_on (\<lambda>(m, d). path d) (set (projects reg))"
        by (simp add: distinct_map)
      have "(m, d) = (n, e)"
        using inj_onD [OF inj, of "(m, d)" "(n, e)"] that(1) here same by simp
      with that(2) show False
        by simp
    qed
    have "attribute c reg = Project n"
      using False Some y by (simp add: attribute_def)
    moreover have "\<exists>e. (n, e) \<in> set (projects reg) \<and> enabled e
                \<and> (c = path e \<or> prefix (path e @ ''/'') c)
                \<and> (\<forall>(m, d) \<in> set (projects reg).
                      (m, d) \<noteq> (n, e) \<and> enabled d \<and> (c = path d \<or> prefix (path d @ ''/'') c)
                      \<longrightarrow> length (path d) < length (path e))"
      using here on fits shorter
      by (intro exI [of _ e]) (auto simp: path_matches_def)
    ultimately show ?thesis
      by simp
  qed
qed

theorem attribute_longest_match_witness:
  "attribute ''/a/b/c'' nested_registry = Project ''inner''
   \<and> attribute ''/a/bc'' nested_registry = Project ''outer''
   \<and> attribute ''/ab'' nested_registry = Unmatched
   \<and> \<not> (''/ab'' = ''/a'' \<or> prefix (''/a'' @ ''/'') ''/ab'')"
proof -
  have absolute: "\<forall>(m, d) \<in> set (projects nested_registry). prefix ''/'' (path d)"
    by (simp add: nested_registry_def project_at_def)
  have unique: "distinct (map (\<lambda>(m, d). path d) (projects nested_registry))"
    by (simp add: nested_registry_def project_at_def)
  have results: "attribute ''/a/b/c'' nested_registry = Project ''inner''
      \<and> attribute ''/a/bc'' nested_registry = Project ''outer''
      \<and> attribute ''/ab'' nested_registry = Unmatched"
    by (simp add: attribute_def nested_registry_def project_at_def path_matches_def)
  from attribute_longest_match [OF absolute unique, of "''/ab''"] results
  have "\<not> (enabled (project_at ''/a'' True)
          \<and> (''/ab'' = path (project_at ''/a'' True)
             \<or> prefix (path (project_at ''/a'' True) @ ''/'') ''/ab''))"
    by (simp add: nested_registry_def)
  with results show ?thesis
    by (simp add: project_at_def)
qed

section \<open>Properties of usage aggregation\<close>

lemma map_default_weighted_sum:
  fixes f :: "ProjectUsageEntry \<Rightarrow> 'a::comm_monoid_add"
  assumes "\<And>a b. f (add_usage a b) = f a + f b"
  shows "sum_list (map (\<lambda>(k, u). if P k then f u else 0)
            (AList.map_default key v (\<lambda>old. add_usage old v) al))
         = sum_list (map (\<lambda>(k, u). if P k then f u else 0) al) + (if P key then f v else 0)"
  using assms by (induction al) (auto simp: add.assoc add.commute add.left_commute)

lemma add_session_weighted_sum:
  fixes f :: "ProjectUsageEntry \<Rightarrow> 'a::comm_monoid_add"
  assumes "\<And>a b. f (add_usage a b) = f a + f b"
    and "\<And>evs. f (session_usage single evs) = sum_list (map g evs)"
  shows "sum_list (map (\<lambda>(k, u). if P k then f u else 0) (add_session now window single reg acc s))
         = sum_list (map (\<lambda>(k, u). if P k then f u else 0) acc)
           + (if P (session_key reg s)
              then sum_list (map g (filter (in_window now window) (session_events s))) else 0)"
  using assms
  by (simp add: add_session_def Let_def map_default_weighted_sum)

lemma foldl_add_session_weighted_sum:
  fixes f :: "ProjectUsageEntry \<Rightarrow> 'a::comm_monoid_add"
  assumes "\<And>a b. f (add_usage a b) = f a + f b"
    and "\<And>evs. f (session_usage single evs) = sum_list (map g evs)"
  shows "sum_list (map (\<lambda>(k, u). if P k then f u else 0)
            (foldl (add_session now window single reg) acc ss))
         = sum_list (map (\<lambda>(k, u). if P k then f u else 0) acc)
           + sum_list (map g (concat (map (\<lambda>s. filter (in_window now window) (session_events s))
               (filter (\<lambda>s. P (session_key reg s)) ss))))"
proof (induction ss arbitrary: acc)
  case Nil
  then show ?case by simp
next
  case (Cons s ss)
  show ?case
    by (simp add: Cons.IH add_session_weighted_sum [where f = f and g = g, OF assms]
          add.assoc)
qed

lemma filtered_sum_is_weighted_sum:
  fixes f :: "ProjectUsageEntry \<Rightarrow> 'a::comm_monoid_add"
  shows "sum_list (map (\<lambda>(k, u). f u) (filter (\<lambda>(k, u). P k) al))
         = sum_list (map (\<lambda>(k, u). if P k then f u else 0) al)"
  by (induction al) auto

lemma distinct_add_session:
  "distinct (map fst acc) \<Longrightarrow> distinct (map fst (add_session now window single reg acc s))"
  by (simp add: add_session_def Let_def distinct_map_default)

lemma distinct_foldl_add_session:
  "distinct (map fst acc) \<Longrightarrow>
     distinct (map fst (foldl (add_session now window single reg) acc ss))"
  by (induction ss arbitrary: acc) (simp_all add: distinct_add_session)

lemma included_sum:
  fixes f :: "ProjectUsageEntry \<Rightarrow> 'a::comm_monoid_add"
  assumes "\<And>a b. f (add_usage a b) = f a + f b"
    and "\<And>evs. f (session_usage single evs) = sum_list (map g evs)"
  shows "sum_list (map (\<lambda>(k, u). f u)
            (usage_projects (aggregate now stamp single window only files (Some reg))))
         = sum_list (map g (counted_events now window only files reg))"
proof (cases only)
  case None
  have "sum_list (map (\<lambda>(k, u). f u) al) = sum_list (map (\<lambda>(k, u). if True then f u else 0) al)"
    for al :: "(string \<times> ProjectUsageEntry) list"
    by simp
  then show ?thesis
    using foldl_add_session_weighted_sum
            [where f = f and g = g and P = "\<lambda>k. True" and acc = "[]", OF assms]
    by (simp add: aggregate_def counted_events_def None Let_def)
next
  case (Some p)
  show ?thesis
    using foldl_add_session_weighted_sum
            [where f = f and g = g and P = "\<lambda>k. k = p" and acc = "[]", OF assms]
    by (simp add: aggregate_def counted_events_def Some Let_def
          filtered_sum_is_weighted_sum [where P = "\<lambda>k. k = p"])
qed

text \<open>
  C8. For every result of the usage aggregation, \<open>totals.totalTokens\<close> is the sum of
  \<open>projects[p].totalTokens\<close> over the projects of the result and
  \<open>totals.estimatedCostUSD\<close> is the sum of \<open>projects[p].estimatedCostUSD\<close>. Nothing is
  counted twice: no project is listed twice, and with a registry both totals are the sums
  of the tokens (input plus output) and of the costs of the in-window events of the
  included sessions, each event once.
\<close>

theorem aggregate_totals_are_sums:
  "totals_totalTokens (totals (aggregate now stamp single window only files registry))
     = sum_list (map (\<lambda>(p, u). totalTokens u)
         (usage_projects (aggregate now stamp single window only files registry)))
   \<and> totals_estimatedCostUSD (totals (aggregate now stamp single window only files registry))
     = sum_list (map (\<lambda>(p, u). estimatedCostUSD u)
         (usage_projects (aggregate now stamp single window only files registry)))
   \<and> distinct (map fst (usage_projects (aggregate now stamp single window only files registry)))
   \<and> (case registry of
        None \<Rightarrow> usage_projects (aggregate now stamp single window only files registry) = []
      | Some reg \<Rightarrow>
          totals_totalTokens (totals (aggregate now stamp single window only files registry))
            = sum_list (map (\<lambda>ev. ev_input ev + ev_output ev)
                (counted_events now window only files reg))
          \<and> totals_estimatedCostUSD
              (totals (aggregate now stamp single window only files registry))
            = sum_list (map ev_cost (counted_events now window only files reg)))"
proof -
  let ?R = "aggregate now stamp single window only files registry"
  have tokens: "totals_totalTokens (totals ?R)
      = sum_list (map (\<lambda>(p, u). totalTokens u) (usage_projects ?R))"
    by (simp add: aggregate_def usage_totals_def Let_def)
  have cost: "totals_estimatedCostUSD (totals ?R)
      = sum_list (map (\<lambda>(p, u). estimatedCostUSD u) (usage_projects ?R))"
    by (simp add: aggregate_def usage_totals_def Let_def)
  have once: "distinct (map fst (usage_projects ?R))"
    by (auto simp: aggregate_def Let_def distinct_map_filter distinct_foldl_add_session
          split: option.splits)
  have events: "case registry of
        None \<Rightarrow> usage_projects ?R = []
      | Some reg \<Rightarrow>
          totals_totalTokens (totals ?R)
            = sum_list (map (\<lambda>ev. ev_input ev + ev_output ev)
                (counted_events now window only files reg))
          \<and> totals_estimatedCostUSD (totals ?R)
            = sum_list (map ev_cost (counted_events now window only files reg))"
  proof (cases registry)
    case None
    then show ?thesis
      by (simp add: aggregate_def split: option.splits)
  next
    case (Some reg)
    have "sum_list (map (\<lambda>(k, u). totalTokens u) (usage_projects ?R))
            = sum_list (map (\<lambda>ev. ev_input ev + ev_output ev)
                (counted_events now window only files reg))"
      unfolding Some
      by (rule included_sum) (simp_all add: add_usage_def session_usage_def sum_list_addf)
    moreover have "sum_list (map (\<lambda>(k, u). estimatedCostUSD u) (usage_projects ?R))
            = sum_list (map ev_cost (counted_events now window only files reg))"
      unfolding Some
      by (rule included_sum) (simp_all add: add_usage_def session_usage_def)
    ultimately show ?thesis
      using tokens cost Some by simp
  qed
  from tokens cost once events show ?thesis
    by simp
qed

theorem aggregate_totals_are_sums_witness:
  "usage_projects (aggregate 1000100000 ''now'' 60000 (Some 7) None
       [Some ui_session, None, Some stray_session] (Some openclaw_registry))
     = [(''openclaw'', session_usage 60000 (session_events ui_session)),
        (''_unmatched'', session_usage 60000 (session_events stray_session))]
   \<and> totalTokens (session_usage 60000 (session_events ui_session)) = 180
   \<and> estimatedCostUSD (session_usage 60000 (session_events ui_session)) = 12 / 1000
   \<and> totals_totalTokens (totals (aggregate 1000100000 ''now'' 60000 (Some 7) None
       [Some ui_session, None, Some stray_session] (Some openclaw_registry))) = 190
   \<and> totals_estimatedCostUSD (totals (aggregate 1000100000 ''now'' 60000 (Some 7) None
       [Some ui_session, None, Some stray_session] (Some openclaw_registry))) = 13 / 1000"
proof -
  let ?R = "aggregate 1000100000 ''now'' 60000 (Some 7) None
              [Some ui_session, None, Some stray_session] (Some openclaw_registry)"
  have keys: "session_key openclaw_registry ui_session = ''openclaw''
      \<and> session_key openclaw_registry stray_session = ''_unmatched''"
    by (simp add: session_key_def attribute_def openclaw_registry_def project_at_def
          path_matches_def ui_session_def stray_session_def)
  have windows: "filter (in_window 1000100000 (Some 7)) (session_events ui_session)
        = session_events ui_session
      \<and> filter (in_window 1000100000 (Some 7)) (session_events stray_session)
        = session_events stray_session"
    by (simp add: in_window_def ui_session_def stray_session_def)
  have listed: "usage_projects ?R
     = [(''openclaw'', session_usage 60000 (session_events ui_session)),
        (''_unmatched'', session_usage 60000 (session_events stray_session))]"
    using keys windows
    by (simp add: aggregate_def List.map_filter_def add_session_def Let_def)
       (simp add: ui_session_def stray_session_def)
  have openclaw: "totalTokens (session_usage 60000 (session_events ui_session)) = 180
      \<and> estimatedCostUSD (session_usage 60000 (session_events ui_session)) = 12 / 1000"
    by (simp add: session_usage_def ui_session_def)
  have stray: "totalTokens (session_usage 60000 (session_events stray_session)) = 10
      \<and> estimatedCostUSD (session_usage 60000 (session_events stray_session)) = 1 / 1000"
    by (simp add: session_usage_def stray_session_def)
  from aggregate_totals_are_sums
         [where now = 1000100000 and stamp = "''now''" and single = 60000
            and window = "Some 7" and only = None
            and files = "[Some ui_session, None, Some stray_session]"
            and registry = "Some openclaw_registry"]
       listed openclaw stray
  show ?thesis
    by simp
qed

end
